theory Spec2Isabelle
  imports Main
begin

section \<open>Data model of the user service (business/user/user.go)\<close>

text \<open>
  The service is written against external collaborators: the generic Mongo repository of
  the framework, the Mongo client (ping, sessions, transactions), bcrypt, the JWT
  library, and the claim enumeration of the package \<open>entities\<close>. None of them is
  part of \<open>user.go\<close>; each is a record of operations here, so every theorem about
  the service holds for any implementation of them. The store they act on is an
  explicit state of type \<open>'db\<close>, passed to each operation and returned by the ones
  that write.
\<close>

subsection \<open>Errors, times, identifiers\<close>

text \<open>
  A Go \<open>error\<close> is either built by \<open>fmt.Errorf\<close> in \<open>user.go\<close> (format string
  and arguments) or handed through from a library call. A nil error is \<open>None\<close>.
\<close>

datatype error = Errorf string "int list" | LibError string

text \<open>
  \<open>time.Time\<close> counts nanoseconds since the Unix epoch (UTC), \<open>time.Duration\<close>
  nanoseconds.
\<close>

type_synonym Time = int
type_synonym Duration = int

definition Hour :: Duration where
  "Hour = 3600000000000"

definition Add :: "Time \<Rightarrow> Duration \<Rightarrow> Time" where
  "Add t d = t + d"

definition Unix :: "Time \<Rightarrow> int" where
  "Unix t = t div 1000000000"

text \<open>The zero \<open>time.Time\<close>: January 1, year 1, 00:00:00 UTC.\<close>

definition zeroTime :: Time where
  "zeroTime = - 62135596800000000000"

text \<open>A \<open>primitive.ObjectID\<close>, kept as the 24 hex digits that \<open>Hex\<close> prints.\<close>

datatype ObjectID = ObjectID string

fun Hex :: "ObjectID \<Rightarrow> string" where
  "Hex (ObjectID h) = h"

subsection \<open>Entities, requests, responses\<close>

text \<open>
  \<open>entities.User\<close>, \<open>requests.User\<close> and \<open>responses.User\<close> convert into one
  another by a plain Go conversion, so they have the same fields: one record.
\<close>

record User =
  ID :: ObjectID
  Name :: string
  Surnames :: string
  Email :: string
  PasswordHash :: string
  Claims :: "int list"
  CreatedAt :: Time
  UpdatedAt :: Time

text \<open>\<open>requests.UpdateUser\<close>: every field is a pointer, nil is \<open>None\<close>.\<close>

record UpdateUser =
  upd_Name :: "string option"
  upd_Surnames :: "string option"
  upd_Email :: "string option"
  upd_OldPassword :: "string option"
  upd_NewPassword :: "string option"
  upd_Claims :: "int list option"



record Creation =
  InsertedID :: string

subsection \<open>The claim enumeration of package entities\<close>

text \<open>
  Modelled from the spec: the declarations of \<open>entities.Claim\<close> (\<open>IsValid\<close>,
  \<open>String\<close>, \<open>GetClaims\<close>) are not in the sources at hand. The spec describes a
  closed enumeration of valid integer claim codes with a display name each, and an
  accessor returning the mapping from code to name; they are parameters here.
\<close>

record entities =
  Claim_IsValid :: "int \<Rightarrow> bool"
  Claim_String :: "int \<Rightarrow> string"
  entities_GetClaims :: "int \<rightharpoonup> string"

subsection \<open>Claim validation\<close>

text \<open>
  \<open>validateClaims\<close>: the range loop returns at the first claim that is not valid.
\<close>

fun validateClaims :: "entities \<Rightarrow> int list \<Rightarrow> error option" where
  "validateClaims e [] = None"
| "validateClaims e (claim # claims) =
     (if \<not> Claim_IsValid e claim
      then Some (Errorf ''not valid claim detected: %d'' [claim])
      else validateClaims e claims)"

subsection \<open>Password hashing (bcrypt)\<close>

text \<open>
  \<open>bcrypt.GenerateFromPassword\<close> draws a random salt; \<open>'rnd\<close> is the entropy one
  call consumes. \<open>bcrypt.CompareHashAndPassword\<close> takes the hash first and returns
  nil on a match.
\<close>

record 'rnd bcrypt =
  GenerateFromPassword :: "'rnd \<Rightarrow> string \<Rightarrow> int \<Rightarrow> error + string"
  CompareHashAndPassword :: "string \<Rightarrow> string \<Rightarrow> error option"

definition DefaultCost :: int where
  "DefaultCost = 10"

text \<open>
  \<open>hashPassword\<close> overwrites \<open>*password\<close> with the hash and returns nil, or leaves it
  and returns the error: the result is the error or the new value of \<open>*password\<close>.
\<close>

definition hashPassword :: "'rnd bcrypt \<Rightarrow> 'rnd \<Rightarrow> string \<Rightarrow> error + string" where
  "hashPassword b rnd password =
     (case GenerateFromPassword b rnd password DefaultCost of
        Inl err \<Rightarrow> Inl err
      | Inr bytes \<Rightarrow> Inr bytes)"

definition checkPasswordHash :: "'rnd bcrypt \<Rightarrow> string \<Rightarrow> string \<Rightarrow> bool" where
  "checkPasswordHash b password hash = (CompareHashAndPassword b hash password = None)"

subsection \<open>Token creation (JWT)\<close>

datatype claim_value = BoolV bool | StringV string | Int64V int

type_synonym MapClaims = "string \<rightharpoonup> claim_value"

datatype SigningMethod = SigningMethodHS256

text \<open>\<open>jwt.NewWithClaims(method, claims).SignedString(key)\<close>, one operation here.\<close>

record jwt =
  SignedString :: "SigningMethod \<Rightarrow> MapClaims \<Rightarrow> string \<Rightarrow> error + string"

text \<open>The libraries a call of the service uses.\<close>

record 'rnd libs =
  ent :: entities
  bc :: "'rnd bcrypt"
  jw :: jwt

text \<open>Lines 256 to 259 of \<open>createToken\<close>: the three standard fields.\<close>

definition standardClaims :: "Time \<Rightarrow> string \<Rightarrow> MapClaims" where
  "standardClaims now userid =
     (Map.empty(''authorized'' \<mapsto> BoolV True))
       (''user_id'' \<mapsto> StringV userid,
        ''exp'' \<mapsto> Int64V (Unix (Add now (Hour * 168))))"

text \<open>Lines 265 to 267: one flag per claim, keyed by the claim's name, in list order.\<close>

fun claimFlags :: "entities \<Rightarrow> MapClaims \<Rightarrow> int list \<Rightarrow> MapClaims" where
  "claimFlags e addClaims [] = addClaims"
| "claimFlags e addClaims (claim # claims) =
     claimFlags e (addClaims(Claim_String e claim \<mapsto> BoolV True)) claims"

definition createToken ::
  "'rnd libs \<Rightarrow> Time \<Rightarrow> string \<Rightarrow> string \<Rightarrow> int list \<Rightarrow> error + string" where
  "createToken L now userid jwtSecret claims =
     (let addClaims = standardClaims now userid in
      case validateClaims (ent L) claims of
        Some err \<Rightarrow> Inl err
      | None \<Rightarrow>
          SignedString (jw L) SigningMethodHS256
            (claimFlags (ent L) addClaims claims) jwtSecret)"

subsection \<open>The repository and the client\<close>

text \<open>
  \<open>infrastructure.MongoRepository\<close> of the framework: find by filter (with skip and
  take), find by id, insert, replace by id (with the upsert flag), delete by id. A
  \<open>bson.M\<close> filter is a list of field and value. Reads return no new store.
\<close>

type_synonym bsonM = "(string \<times> string) list"

record ('db, 'ctx) MongoRepository =
  repo_Get :: "'ctx \<Rightarrow> 'db \<Rightarrow> bsonM \<Rightarrow> nat option \<Rightarrow> nat option \<Rightarrow> error + User list"
  repo_GetByID :: "'ctx \<Rightarrow> 'db \<Rightarrow> string \<Rightarrow> error + User"
  repo_Create :: "'ctx \<Rightarrow> 'db \<Rightarrow> User \<Rightarrow> (error + string) \<times> 'db"
  repo_Update :: "'ctx \<Rightarrow> 'db \<Rightarrow> string \<Rightarrow> User \<Rightarrow> bool \<Rightarrow> error option \<times> 'db"
  repo_Delete :: "'ctx \<Rightarrow> 'db \<Rightarrow> string \<Rightarrow> error option \<times> 'db"

datatype WriteConcern = WMajority

datatype ReadConcern = Snapshot

record TransactionOptions =
  opt_WriteConcern :: WriteConcern
  opt_ReadConcern :: ReadConcern

text \<open>
  \<open>s.db.Client()\<close>: ping, sessions, and \<open>session.WithTransaction\<close>, which is given a
  context, the callback and the options, and hands the callback a session context.
\<close>

record ('db, 'ctx, 'sess) MongoClient =
  Ping :: "'ctx \<Rightarrow> 'db \<Rightarrow> error option"
  StartSession :: "'db \<Rightarrow> (error + 'sess) \<times> 'db"
  EndSession :: "'sess \<Rightarrow> 'ctx \<Rightarrow> 'db \<Rightarrow> 'db"
  WithTransaction ::
    "'sess \<Rightarrow> 'ctx \<Rightarrow> ('ctx \<Rightarrow> 'db \<Rightarrow> error option \<times> 'db) \<Rightarrow> TransactionOptions \<Rightarrow> 'db
      \<Rightarrow> error option \<times> 'db"
  Background :: 'ctx

text \<open>The \<open>Service\<close> struct: the configuration's JWT secret, the client and the repository.\<close>

record ('db, 'ctx, 'sess) Service =
  config_JWTSecret :: string
  client :: "('db, 'ctx, 'sess) MongoClient"
  repo :: "('db, 'ctx) MongoRepository"

section \<open>The operations of the service\<close>


text \<open>
  \<open>Create\<close>: \<open>now\<close> is what \<open>time.Now().UTC()\<close> returns, \<open>oid\<close> what
  \<open>primitive.NewObjectID()\<close> returns, \<open>rnd\<close> the entropy of the hash.
\<close>

definition Create ::
  "'rnd libs \<Rightarrow> ('db, 'ctx, 'sess) Service \<Rightarrow> 'ctx \<Rightarrow> 'db \<Rightarrow> Time \<Rightarrow> ObjectID \<Rightarrow> 'rnd \<Rightarrow> User
    \<Rightarrow> (error + Creation) \<times> 'db" where
  "Create L s ctx db now oid rnd u =
     (case hashPassword (bc L) rnd (PasswordHash u) of
        Inl err \<Rightarrow> (Inl err, db)
      | Inr h \<Rightarrow>
          (let u1 = u\<lparr>PasswordHash := h\<rparr> in
           case validateClaims (ent L) (Claims u1) of
             Some err \<Rightarrow> (Inl err, db)
           | None \<Rightarrow>
               (let u2 = u1\<lparr>ID := oid, CreatedAt := now, UpdatedAt := now\<rparr> in
                case repo_Create (repo s) ctx db u2 of
                  (Inl err, db') \<Rightarrow> (Inl err, db')
                | (Inr insertedID, db') \<Rightarrow> (Inr \<lparr>InsertedID = insertedID\<rparr>, db'))))"

definition GetAll ::
  "('db, 'ctx, 'sess) Service \<Rightarrow> 'ctx \<Rightarrow> 'db \<Rightarrow> error + User list" where
  "GetAll s ctx db =
     (case repo_Get (repo s) ctx db [] None None of
        Inl err \<Rightarrow> Inl err
      | Inr result \<Rightarrow> Inr result)"

definition GetByEmail ::
  "('db, 'ctx, 'sess) Service \<Rightarrow> 'ctx \<Rightarrow> 'db \<Rightarrow> string \<Rightarrow> error + User" where
  "GetByEmail s ctx db email =
     (let filter = [(''email'', email)] in
      case repo_Get (repo s) ctx db filter None None of
        Inl err \<Rightarrow> Inl err
      | Inr result \<Rightarrow>
          (case result of
             [] \<Rightarrow> Inl (Errorf ''email not found'' [])
           | user # _ \<Rightarrow> Inr user))"

definition GetByID ::
  "('db, 'ctx, 'sess) Service \<Rightarrow> 'ctx \<Rightarrow> 'db \<Rightarrow> string \<Rightarrow> error + User" where
  "GetByID s ctx db ident =
     (case repo_GetByID (repo s) ctx db ident of
        Inl err \<Rightarrow> Inl err
      | Inr user \<Rightarrow> Inr user)"

text \<open>
  What a call of a Go function does: it returns, or it panics. \<open>Update\<close> reads
  \<open>*u.OldPassword\<close> without a nil check, the one place of \<open>user.go\<close> that can panic.
\<close>

datatype 'a go = Panic string | Return 'a

definition nilDereference :: string where
  "nilDereference = ''runtime error: invalid memory address or nil pointer dereference''"

text \<open>
  Lines 148 to 156 of \<open>Update\<close>: name, surnames and email are copied when present.
\<close>

definition applyNames :: "UpdateUser \<Rightarrow> User \<Rightarrow> User" where
  "applyNames u user =
     (let user1 = (case upd_Name u of None \<Rightarrow> user | Some n \<Rightarrow> user\<lparr>Name := n\<rparr>);
          user2 = (case upd_Surnames u of None \<Rightarrow> user1 | Some n \<Rightarrow> user1\<lparr>Surnames := n\<rparr>)
      in (case upd_Email u of None \<Rightarrow> user2 | Some e \<Rightarrow> user2\<lparr>Email := e\<rparr>))"

text \<open>
  Lines 157 to 168: the password. The result is a panic, an early return of an error,
  or the user to go on with.
\<close>

definition applyPassword ::
  "'rnd libs \<Rightarrow> 'rnd \<Rightarrow> UpdateUser \<Rightarrow> User \<Rightarrow> (error + User) go" where
  "applyPassword L rnd u user =
     (case upd_NewPassword u of
        None \<Rightarrow> Return (Inr user)
      | Some newPassword \<Rightarrow>
          (case upd_OldPassword u of
             None \<Rightarrow> Panic nilDereference
           | Some oldPassword \<Rightarrow>
               if checkPasswordHash (bc L) oldPassword (PasswordHash user)
               then
                 (case hashPassword (bc L) rnd newPassword of
                    Inl err \<Rightarrow> Return (Inl err)
                  | Inr h \<Rightarrow> Return (Inr (user\<lparr>PasswordHash := h\<rparr>)))
               else Return (Inl (Errorf ''old password incorrect'' []))))"

text \<open>Lines 169 to 175: the claims.\<close>

definition applyClaims :: "'rnd libs \<Rightarrow> UpdateUser \<Rightarrow> User \<Rightarrow> error + User" where
  "applyClaims L u user =
     (case upd_Claims u of
        None \<Rightarrow> Inr user
      | Some claims \<Rightarrow>
          (case validateClaims (ent L) claims of
             Some err \<Rightarrow> Inl err
           | None \<Rightarrow> Inr (user\<lparr>Claims := claims\<rparr>)))"

definition Update ::
  "'rnd libs \<Rightarrow> ('db, 'ctx, 'sess) Service \<Rightarrow> 'ctx \<Rightarrow> 'db \<Rightarrow> Time \<Rightarrow> 'rnd \<Rightarrow> string \<Rightarrow> UpdateUser
    \<Rightarrow> error option go \<times> 'db" where
  "Update L s ctx db now rnd ident u =
     (case repo_GetByID (repo s) ctx db ident of
        Inl err \<Rightarrow> (Return (Some err), db)
      | Inr result \<Rightarrow>
          (case applyPassword L rnd u (applyNames u result) of
             Panic msg \<Rightarrow> (Panic msg, db)
           | Return (Inl err) \<Rightarrow> (Return (Some err), db)
           | Return (Inr user1) \<Rightarrow>
               (case applyClaims L u user1 of
                  Inl err \<Rightarrow> (Return (Some err), db)
                | Inr user2 \<Rightarrow>
                    (let user3 = user2\<lparr>UpdatedAt := now\<rparr> in
                     case repo_Update (repo s) ctx db ident user3 False of
                       (Some err, db') \<Rightarrow> (Return (Some err), db')
                     | (None, db') \<Rightarrow> (Return None, db')))))"

definition Delete ::
  "('db, 'ctx, 'sess) Service \<Rightarrow> 'ctx \<Rightarrow> 'db \<Rightarrow> string \<Rightarrow> error option \<times> 'db" where
  "Delete s ctx db ident =
     (case repo_Delete (repo s) ctx db ident of
        (Some err, db') \<Rightarrow> (Some err, db')
      | (None, db') \<Rightarrow> (None, db'))"

text \<open>\<open>GetClaims\<close> returns both values: the enumeration and the result of the ping.\<close>

definition GetClaims ::
  "'rnd libs \<Rightarrow> ('db, 'ctx, 'sess) Service \<Rightarrow> 'ctx \<Rightarrow> 'db \<Rightarrow> (int \<rightharpoonup> string) \<times> error option" where
  "GetClaims L s ctx db = (entities_GetClaims (ent L), Ping (client s) ctx db)"

text \<open>
  The two entities of \<open>AtomicTransationProof\<close>. The fields the literal leaves out
  (\<open>CreatedAt\<close>, \<open>UpdatedAt\<close>) are the zero time; a nil slice is the empty list.
\<close>

definition demoEntity :: "ObjectID \<Rightarrow> string \<Rightarrow> string \<Rightarrow> User" where
  "demoEntity oid name hash =
     \<lparr>ID = oid, Name = name, Surnames = name, Email = name, PasswordHash = hash,
      Claims = [], CreatedAt = zeroTime, UpdatedAt = zeroTime\<rparr>"

text \<open>The callback of lines 220 to 248: the second insert runs only after the first succeeded.\<close>

definition callback ::
  "('db, 'ctx, 'sess) Service \<Rightarrow> ObjectID \<Rightarrow> ObjectID \<Rightarrow> string \<Rightarrow> string \<Rightarrow> 'ctx \<Rightarrow> 'db
    \<Rightarrow> error option \<times> 'db" where
  "callback s oid1 oid2 user1Hash user2Hash sessionContext db =
     (case repo_Create (repo s) sessionContext db (demoEntity oid1 ''Entity1'' user1Hash) of
        (Inl err, db1) \<Rightarrow> (Some err, db1)
      | (Inr _, db1) \<Rightarrow>
          (case repo_Create (repo s) sessionContext db1 (demoEntity oid2 ''Entity2'' user2Hash) of
             (Inl err, db2) \<Rightarrow> (Some err, db2)
           | (Inr _, db2) \<Rightarrow> (None, db2)))"

text \<open>
  \<open>AtomicTransationProof\<close>. The deferred \<open>EndSession\<close> runs on every return after the
  session was started: it is applied to the store of whichever branch returns.
\<close>

definition AtomicTransationProof ::
  "'rnd libs \<Rightarrow> ('db, 'ctx, 'sess) Service \<Rightarrow> 'ctx \<Rightarrow> 'db \<Rightarrow> 'rnd \<Rightarrow> 'rnd \<Rightarrow> ObjectID \<Rightarrow> ObjectID
    \<Rightarrow> error option \<times> 'db" where
  "AtomicTransationProof L s ctx db rnd1 rnd2 oid1 oid2 =
     (let wc = WMajority; rc = Snapshot;
          txnOpts = \<lparr>opt_WriteConcern = wc, opt_ReadConcern = rc\<rparr> in
      case StartSession (client s) db of
        (Inl err, db0) \<Rightarrow> (Some err, db0)
      | (Inr session, db0) \<Rightarrow>
          (let (err, db1) =
             (case hashPassword (bc L) rnd1 ''Entity1'' of
                Inl err \<Rightarrow> (Some err, db0)
              | Inr user1Hash \<Rightarrow>
                  (case hashPassword (bc L) rnd2 ''Entity2'' of
                     Inl err \<Rightarrow> (Some err, db0)
                   | Inr user2Hash \<Rightarrow>
                       WithTransaction (client s) session (Background (client s))
                         (callback s oid1 oid2 user1Hash user2Hash) txnOpts db0))
           in (err, EndSession (client s) session ctx db1)))"

section \<open>An in-memory instance of the collaborators\<close>

text \<open>
  One concrete implementation of each collaborator, small enough to evaluate, on which
  the service is run at concrete inputs. The store holds the committed documents, the
  working copy of an open transaction, the number of open sessions, and whether the
  backend answers. A context is plain or belongs to a session.
\<close>

datatype mem_ctx = Plain | InSession

record mem_db =
  committed :: "User list"
  working :: "User list option"
  sessions :: nat
  reachable :: bool

definition mem_docs :: "mem_ctx \<Rightarrow> mem_db \<Rightarrow> User list" where
  "mem_docs c d =
     (case c of
        Plain \<Rightarrow> committed d
      | InSession \<Rightarrow> (case working d of None \<Rightarrow> committed d | Some w \<Rightarrow> w))"

definition mem_store :: "mem_ctx \<Rightarrow> mem_db \<Rightarrow> User list \<Rightarrow> mem_db" where
  "mem_store c d docs =
     (case c of
        Plain \<Rightarrow> d\<lparr>committed := docs\<rparr>
      | InSession \<Rightarrow>
          (case working d of None \<Rightarrow> d\<lparr>committed := docs\<rparr> | Some _ \<Rightarrow> d\<lparr>working := Some docs\<rparr>))"

definition mem_unreachable :: error where
  "mem_unreachable = LibError ''server selection error''"

definition mem_no_documents :: error where
  "mem_no_documents = LibError ''mongo: no documents in result''"

definition mem_duplicate_key :: error where
  "mem_duplicate_key = LibError ''duplicate key error''"

definition mem_immutable_id :: error where
  "mem_immutable_id = LibError ''the immutable field _id was found to have been altered''"

fun mem_field :: "string \<Rightarrow> User \<Rightarrow> string option" where
  "mem_field k u =
     (if k = ''email'' then Some (Email u)
      else if k = ''name'' then Some (Name u)
      else if k = ''surnames'' then Some (Surnames u)
      else None)"

definition mem_matches :: "bsonM \<Rightarrow> User \<Rightarrow> bool" where
  "mem_matches flt u = list_all (\<lambda>(k, v). mem_field k u = Some v) flt"

definition mem_has :: "string \<Rightarrow> User list \<Rightarrow> bool" where
  "mem_has i docs = list_ex (\<lambda>x. Hex (ID x) = i) docs"

definition mem_Get ::
  "mem_ctx \<Rightarrow> mem_db \<Rightarrow> bsonM \<Rightarrow> nat option \<Rightarrow> nat option \<Rightarrow> error + User list" where
  "mem_Get c d flt skip tk =
     (if \<not> reachable d then Inl mem_unreachable
      else
        (let found = filter (mem_matches flt) (mem_docs c d);
             skipped = (case skip of None \<Rightarrow> found | Some n \<Rightarrow> drop n found)
         in Inr (case tk of None \<Rightarrow> skipped | Some n \<Rightarrow> take n skipped)))"

definition mem_GetByID :: "mem_ctx \<Rightarrow> mem_db \<Rightarrow> string \<Rightarrow> error + User" where
  "mem_GetByID c d i =
     (if \<not> reachable d then Inl mem_unreachable
      else
        (case find (\<lambda>x. Hex (ID x) = i) (mem_docs c d) of
           None \<Rightarrow> Inl mem_no_documents
         | Some x \<Rightarrow> Inr x))"

definition mem_Create :: "mem_ctx \<Rightarrow> mem_db \<Rightarrow> User \<Rightarrow> (error + string) \<times> mem_db" where
  "mem_Create c d u =
     (if \<not> reachable d then (Inl mem_unreachable, d)
      else if mem_has (Hex (ID u)) (mem_docs c d) then (Inl mem_duplicate_key, d)
      else (Inr (Hex (ID u)), mem_store c d (mem_docs c d @ [u])))"

definition mem_Update ::
  "mem_ctx \<Rightarrow> mem_db \<Rightarrow> string \<Rightarrow> User \<Rightarrow> bool \<Rightarrow> error option \<times> mem_db" where
  "mem_Update c d i u upsert =
     (if \<not> reachable d then (Some mem_unreachable, d)
      else if Hex (ID u) \<noteq> i then (Some mem_immutable_id, d)
      else if mem_has i (mem_docs c d)
      then (None, mem_store c d (map (\<lambda>x. if Hex (ID x) = i then u else x) (mem_docs c d)))
      else if upsert then (None, mem_store c d (mem_docs c d @ [u]))
      else (Some mem_no_documents, d))"

definition mem_Delete :: "mem_ctx \<Rightarrow> mem_db \<Rightarrow> string \<Rightarrow> error option \<times> mem_db" where
  "mem_Delete c d i =
     (if \<not> reachable d then (Some mem_unreachable, d)
      else if mem_has i (mem_docs c d)
      then (None, mem_store c d (filter (\<lambda>x. Hex (ID x) \<noteq> i) (mem_docs c d)))
      else (Some mem_no_documents, d))"

definition mem_repo :: "(mem_db, mem_ctx) MongoRepository" where
  "mem_repo =
     \<lparr>repo_Get = mem_Get, repo_GetByID = mem_GetByID, repo_Create = mem_Create,
      repo_Update = mem_Update, repo_Delete = mem_Delete\<rparr>"

definition mem_Ping :: "mem_ctx \<Rightarrow> mem_db \<Rightarrow> error option" where
  "mem_Ping c d = (if reachable d then None else Some mem_unreachable)"

definition mem_StartSession :: "mem_db \<Rightarrow> (error + nat) \<times> mem_db" where
  "mem_StartSession d =
     (if \<not> reachable d then (Inl mem_unreachable, d)
      else (Inr (sessions d), d\<lparr>sessions := Suc (sessions d)\<rparr>))"

definition mem_EndSession :: "nat \<Rightarrow> mem_ctx \<Rightarrow> mem_db \<Rightarrow> mem_db" where
  "mem_EndSession sess c d = d\<lparr>sessions := sessions d - 1\<rparr>"

text \<open>
  The transaction: the callback works on a copy of the committed documents; the copy
  replaces them when the callback returns nil and is dropped when it returns an error.
\<close>

definition mem_WithTransaction ::
  "nat \<Rightarrow> mem_ctx \<Rightarrow> (mem_ctx \<Rightarrow> mem_db \<Rightarrow> error option \<times> mem_db) \<Rightarrow> TransactionOptions
    \<Rightarrow> mem_db \<Rightarrow> error option \<times> mem_db" where
  "mem_WithTransaction sess c cb opts d =
     (case cb InSession (d\<lparr>working := Some (committed d)\<rparr>) of
        (Some err, d1) \<Rightarrow> (Some err, d1\<lparr>working := None\<rparr>)
      | (None, d1) \<Rightarrow> (None, d1\<lparr>committed := mem_docs InSession d1, working := None\<rparr>))"

definition mem_client :: "(mem_db, mem_ctx, nat) MongoClient" where
  "mem_client =
     \<lparr>Ping = mem_Ping, StartSession = mem_StartSession, EndSession = mem_EndSession,
      WithTransaction = mem_WithTransaction, Background = Plain\<rparr>"

definition mem_service :: "(mem_db, mem_ctx, nat) Service" where
  "mem_service = \<lparr>config_JWTSecret = ''secret'', client = mem_client, repo = mem_repo\<rparr>"

text \<open>
  Two claims, 0 and 1. The stand-in for bcrypt puts the salt character in front of the
  password (no cryptography: it only has the shape of the interface); without entropy
  it fails. The stand-in for the JWT library refuses an empty key.
\<close>

definition mem_entities :: entities where
  "mem_entities =
     \<lparr>Claim_IsValid = (\<lambda>c. c = 0 \<or> c = 1),
      Claim_String = (\<lambda>c. if c = 0 then ''admin'' else ''operator''),
      entities_GetClaims = [0 \<mapsto> ''admin'', 1 \<mapsto> ''operator'']\<rparr>"

definition mem_mismatch :: error where
  "mem_mismatch = LibError ''hashedPassword is not the hash of the given password''"

definition mem_bcrypt :: "char option bcrypt" where
  "mem_bcrypt =
     \<lparr>GenerateFromPassword =
        (\<lambda>rnd password cost.
           case rnd of None \<Rightarrow> Inl (LibError ''no entropy'') | Some salt \<Rightarrow> Inr (salt # password)),
      CompareHashAndPassword =
        (\<lambda>hash password.
           case hash of
             [] \<Rightarrow> Some (LibError ''hashedSecret too short'')
           | salt # rest \<Rightarrow> if rest = password then None else Some mem_mismatch)\<rparr>"

definition mem_jwt :: jwt where
  "mem_jwt =
     \<lparr>SignedString =
        (\<lambda>method claims key.
           if key = [] then Inl (LibError ''key is invalid'')
           else Inr (key @ ''.'' @ (case claims ''user_id'' of Some (StringV u) \<Rightarrow> u | _ \<Rightarrow> [])))\<rparr>"

definition mem_libs :: "char option libs" where
  "mem_libs = \<lparr>ent = mem_entities, bc = mem_bcrypt, jw = mem_jwt\<rparr>"

text \<open>A stored user whose password is \<open>pw\<close>, and a store that holds only that user.\<close>

definition alice :: User where
  "alice =
     \<lparr>ID = ObjectID ''0000000000000000000000a1'', Name = ''Alice'', Surnames = ''Liddell'',
      Email = ''alice@example.org'', PasswordHash = CHR ''s'' # ''pw'', Claims = [0],
      CreatedAt = 1000, UpdatedAt = 1000\<rparr>"

definition db1 :: mem_db where
  "db1 = \<lparr>committed = [alice], working = None, sessions = 0, reachable = True\<rparr>"

text \<open>The hex id of that user, an update request that changes nothing, and the store after
  that user was renamed at time 2000.\<close>

definition alice_id :: string where
  "alice_id = ''0000000000000000000000a1''"

definition noChange :: UpdateUser where
  "noChange =
     \<lparr>upd_Name = None, upd_Surnames = None, upd_Email = None, upd_OldPassword = None,
      upd_NewPassword = None, upd_Claims = None\<rparr>"

definition db1_renamed :: mem_db where
  "db1_renamed = db1\<lparr>committed := [alice\<lparr>Name := ''Alicia'', UpdatedAt := 2000\<rparr>]\<rparr>"

text \<open>A user to create, the id drawn for it, and the store after it was created at time 3000
  with salt \<open>t\<close>.\<close>

definition newUser :: User where
  "newUser =
     \<lparr>ID = ObjectID [], Name = ''Bob'', Surnames = ''Builder'', Email = ''bob@example.org'',
      PasswordHash = ''hunter2'', Claims = [1], CreatedAt = 0, UpdatedAt = 0\<rparr>"

definition bob_id :: string where
  "bob_id = ''0000000000000000000000b2''"

definition db1_bob :: mem_db where
  "db1_bob =
     db1\<lparr>committed :=
       [alice, newUser\<lparr>PasswordHash := CHR ''t'' # ''hunter2'', ID := ObjectID bob_id,
                       CreatedAt := 3000, UpdatedAt := 3000\<rparr>]\<rparr>"

text \<open>The ids drawn for the two entities of the atomic write, and the store after both were
  inserted with salts \<open>a\<close> and \<open>b\<close>.\<close>

definition e1_id :: string where
  "e1_id = ''0000000000000000000000e1''"

definition e2_id :: string where
  "e2_id = ''0000000000000000000000e2''"

definition db1_entities :: mem_db where
  "db1_entities =
     db1\<lparr>committed :=
       [alice, demoEntity (ObjectID e1_id) ''Entity1'' (CHR ''a'' # ''Entity1''),
        demoEntity (ObjectID e2_id) ''Entity2'' (CHR ''b'' # ''Entity2'')]\<rparr>"

text \<open>The store after that user's email, password and claims were changed at time 2000.\<close>

definition db1_repatched :: mem_db where
  "db1_repatched =
     db1\<lparr>committed :=
       [alice\<lparr>Email := ''al@example.org'', PasswordHash := CHR ''t'' # ''new'',
              Claims := [1, 0], UpdatedAt := 2000\<rparr>]\<rparr>"


section \<open>Properties\<close>

subsection \<open>Helper lemmas\<close>

lemma validateClaims_None_iff:
  "(validateClaims e C = None) = (\<forall>c\<in>set C. Claim_IsValid e c)"
  by (induction C) auto

lemma validateClaims_first_invalid:
  "find (\<lambda>c. \<not> Claim_IsValid e c) C = Some c \<Longrightarrow>
   validateClaims e C = Some (Errorf ''not valid claim detected: %d'' [c])"
  by (induction C) (auto split: if_splits)

lemma validateClaims_find:
  "validateClaims e C =
     (case find (\<lambda>c. \<not> Claim_IsValid e c) C of
        None \<Rightarrow> None
      | Some c \<Rightarrow> Some (Errorf ''not valid claim detected: %d'' [c]))"
  by (induction C) auto

lemma claimFlags_apply:
  "claimFlags e m cs k = (if k \<in> Claim_String e ` set cs then Some (BoolV True) else m k)"
  by (induction cs arbitrary: m) auto

lemma Unix_Add_168h: "Unix (Add now (Hour * 168)) = Unix now + 168 * 3600"
  by (simp add: Unix_def Add_def Hour_def)

lemma applyNames_keeps [simp]:
  "PasswordHash (applyNames u user) = PasswordHash user"
  "Claims (applyNames u user) = Claims user"
  "ID (applyNames u user) = ID user"
  "CreatedAt (applyNames u user) = CreatedAt user"
  "UpdatedAt (applyNames u user) = UpdatedAt user"
  by (simp_all add: applyNames_def Let_def split: option.splits)

lemma applyNames_sets [simp]:
  "Name (applyNames u user) = (case upd_Name u of None \<Rightarrow> Name user | Some n \<Rightarrow> n)"
  "Surnames (applyNames u user) = (case upd_Surnames u of None \<Rightarrow> Surnames user | Some n \<Rightarrow> n)"
  "Email (applyNames u user) = (case upd_Email u of None \<Rightarrow> Email user | Some n \<Rightarrow> n)"
  by (simp_all add: applyNames_def Let_def split: option.splits)

lemma callback_None:
  "callback s oid1 oid2 h1 h2 sc d = (None, d') \<Longrightarrow>
   \<exists>i dm j. repo_Create (repo s) sc d (demoEntity oid1 ''Entity1'' h1) = (Inr i, dm) \<and>
            repo_Create (repo s) sc dm (demoEntity oid2 ''Entity2'' h2) = (Inr j, d')"
  by (auto simp add: callback_def split: prod.splits sum.splits)

lemma AtomicTransationProof_cases:
  "AtomicTransationProof L s ctx db rnd1 rnd2 oid1 oid2 = (res, db') \<Longrightarrow>
   (\<exists>err. StartSession (client s) db = (Inl err, db') \<and> res = Some err)
   \<or> (\<exists>sess d0. StartSession (client s) db = (Inr sess, d0) \<and>
        ((\<exists>err. res = Some err \<and> db' = EndSession (client s) sess ctx d0 \<and>
            (hashPassword (bc L) rnd1 ''Entity1'' = Inl err \<or>
             hashPassword (bc L) rnd2 ''Entity2'' = Inl err))
         \<or> (\<exists>h1 h2 d1.
              hashPassword (bc L) rnd1 ''Entity1'' = Inr h1 \<and>
              hashPassword (bc L) rnd2 ''Entity2'' = Inr h2 \<and>
              WithTransaction (client s) sess (Background (client s))
                (callback s oid1 oid2 h1 h2)
                \<lparr>opt_WriteConcern = WMajority, opt_ReadConcern = Snapshot\<rparr> d0 = (res, d1) \<and>
              db' = EndSession (client s) sess ctx d1)))"
  by (auto simp add: AtomicTransationProof_def Let_def split: prod.splits sum.splits)

lemma Update_reaches_replace:
  assumes "repo_GetByID (repo s) ctx db ident = Inr stored"
    and "applyPassword L rnd u (applyNames u stored) = Return (Inr user1)"
    and "applyClaims L u user1 = Inr user2"
  shows "Update L s ctx db now rnd ident u =
    (case repo_Update (repo s) ctx db ident (user2\<lparr>UpdatedAt := now\<rparr>) False of
       (err, db') \<Rightarrow> (Return err, db'))"
  using assms by (simp add: Update_def Let_def split: prod.splits option.splits)

lemma Update_written_document:
  assumes p: "applyPassword L rnd u (applyNames u stored) = Return (Inr user1)"
    and c: "applyClaims L u user1 = Inr user2"
  shows "Name (user2\<lparr>UpdatedAt := now\<rparr>) =
        (case upd_Name u of None \<Rightarrow> Name stored | Some n \<Rightarrow> n)
      \<and> Surnames (user2\<lparr>UpdatedAt := now\<rparr>) =
        (case upd_Surnames u of None \<Rightarrow> Surnames stored | Some n \<Rightarrow> n)
      \<and> Email (user2\<lparr>UpdatedAt := now\<rparr>) =
        (case upd_Email u of None \<Rightarrow> Email stored | Some e \<Rightarrow> e)
      \<and> Claims (user2\<lparr>UpdatedAt := now\<rparr>) =
        (case upd_Claims u of None \<Rightarrow> Claims stored | Some c \<Rightarrow> c)
      \<and> (case upd_NewPassword u of
            None \<Rightarrow> PasswordHash (user2\<lparr>UpdatedAt := now\<rparr>) = PasswordHash stored
          | Some newPassword \<Rightarrow>
              hashPassword (bc L) rnd newPassword = Inr (PasswordHash (user2\<lparr>UpdatedAt := now\<rparr>)))
      \<and> ID (user2\<lparr>UpdatedAt := now\<rparr>) = ID stored
      \<and> CreatedAt (user2\<lparr>UpdatedAt := now\<rparr>) = CreatedAt stored
      \<and> UpdatedAt (user2\<lparr>UpdatedAt := now\<rparr>) = now"
proof -
  from p have p1: "Name user1 = Name (applyNames u stored)"
    "Surnames user1 = Surnames (applyNames u stored)"
    "Email user1 = Email (applyNames u stored)"
    "Claims user1 = Claims stored" "ID user1 = ID stored" "CreatedAt user1 = CreatedAt stored"
    by (auto simp add: applyPassword_def split: option.splits if_splits sum.splits)
  from p have p2: "case upd_NewPassword u of
            None \<Rightarrow> PasswordHash user1 = PasswordHash stored
          | Some newPassword \<Rightarrow> hashPassword (bc L) rnd newPassword = Inr (PasswordHash user1)"
    by (auto simp add: applyPassword_def split: option.splits if_splits sum.splits)
  from c have c1: "Name user2 = Name user1" "Surnames user2 = Surnames user1"
    "Email user2 = Email user1" "PasswordHash user2 = PasswordHash user1"
    "ID user2 = ID user1" "CreatedAt user2 = CreatedAt user1"
    "Claims user2 = (case upd_Claims u of None \<Rightarrow> Claims user1 | Some c \<Rightarrow> c)"
    by (auto simp add: applyClaims_def split: option.splits)
  from p1 p2 c1 show ?thesis by (simp split: option.splits)
qed

lemma applyPassword_passes:
  assumes "upd_NewPassword u = None \<or>
       (\<exists>newPassword oldPassword h.
          upd_NewPassword u = Some newPassword \<and> upd_OldPassword u = Some oldPassword \<and>
          checkPasswordHash (bc L) oldPassword (PasswordHash user) \<and>
          hashPassword (bc L) rnd newPassword = Inr h)"
  shows "\<exists>user1. applyPassword L rnd u user = Return (Inr user1)"
  using assms by (auto simp add: applyPassword_def)

lemma applyClaims_passes:
  assumes "\<forall>claims. upd_Claims u = Some claims \<longrightarrow> validateClaims (ent L) claims = None"
  shows "\<exists>user2. applyClaims L u user1 = Inr user2"
  using assms by (cases "upd_Claims u") (auto simp add: applyClaims_def)

lemma User_eqI:
  "ID a = ID b \<Longrightarrow> Name a = Name b \<Longrightarrow> Surnames a = Surnames b \<Longrightarrow> Email a = Email b \<Longrightarrow>
   PasswordHash a = PasswordHash b \<Longrightarrow> Claims a = Claims b \<Longrightarrow> CreatedAt a = CreatedAt b \<Longrightarrow>
   UpdatedAt a = UpdatedAt b \<Longrightarrow> a = (b :: User)"
  by (rule User.equality) simp_all

subsection \<open>Claim validation\<close>

text \<open>
  C5. For every list of claim codes, \<open>validateClaims\<close> returns nil exactly when every
  element is valid in the enumeration; otherwise the error it returns carries the first
  invalid code in list order, and only that one. In particular the list \<open>[99999]\<close>
  is refused when 99999 is not in the enumeration (the enumeration itself is a parameter).
\<close>

theorem validateClaims_all_valid_or_first_invalid:
  "(validateClaims e C = None) = (\<forall>c\<in>set C. Claim_IsValid e c)
   \<and> validateClaims e C =
       (case find (\<lambda>c. \<not> Claim_IsValid e c) C of
          None \<Rightarrow> None
        | Some c \<Rightarrow> Some (Errorf ''not valid claim detected: %d'' [c]))
   \<and> (\<not> Claim_IsValid e 99999 \<longrightarrow>
        validateClaims e [99999] = Some (Errorf ''not valid claim detected: %d'' [99999]))"
  using validateClaims_None_iff [of e C] validateClaims_find [of e C] by simp

theorem validateClaims_witness:
  "validateClaims mem_entities [0, 7, 1, 9] = Some (Errorf ''not valid claim detected: %d'' [7])
   \<and> validateClaims mem_entities [99999] = Some (Errorf ''not valid claim detected: %d'' [99999])
   \<and> validateClaims mem_entities [0, 1, 1] = None"
  using validateClaims_all_valid_or_first_invalid [of mem_entities "[0, 7, 1, 9]"]
    validateClaims_all_valid_or_first_invalid [of mem_entities "[0, 1, 1]"]
  by (simp add: mem_entities_def)

subsection \<open>Token creation\<close>

text \<open>
  C6. For every user id, secret and list of valid claim codes, \<open>createToken\<close> signs a
  payload that holds \<open>authorized = true\<close>, \<open>user_id\<close> equal to the given id,
  \<open>exp\<close> equal to the Unix time of issuance plus 168 hours (604800 seconds), and a
  true flag under the display name of every claim, and nothing else. The display names
  come from the enumeration, a parameter here; the statement needs them to differ
  from the three standard keys, which a flag would otherwise overwrite. If a
  code of the list is invalid, \<open>createToken\<close> returns the validation error for the
  first invalid code and signs nothing.
\<close>

theorem createToken_payload:
  "((\<forall>c\<in>set claims. Claim_IsValid (ent L) c) \<and>
    (\<forall>c\<in>set claims. Claim_String (ent L) c \<notin> {''authorized'', ''user_id'', ''exp''}) \<longrightarrow>
    (\<exists>payload.
       createToken L now userid jwtSecret claims =
         SignedString (jw L) SigningMethodHS256 payload jwtSecret
       \<and> payload ''authorized'' = Some (BoolV True)
       \<and> payload ''user_id'' = Some (StringV userid)
       \<and> payload ''exp'' = Some (Int64V (Unix now + 168 * 3600))
       \<and> (\<forall>c\<in>set claims. payload (Claim_String (ent L) c) = Some (BoolV True))
       \<and> dom payload = {''authorized'', ''user_id'', ''exp''} \<union> Claim_String (ent L) ` set claims))
   \<and> (\<not> (\<forall>c\<in>set claims. Claim_IsValid (ent L) c) \<longrightarrow>
      (\<exists>c\<in>set claims. \<not> Claim_IsValid (ent L) c \<and>
         createToken L now userid jwtSecret claims =
           Inl (Errorf ''not valid claim detected: %d'' [c])))"
proof (intro conjI impI)
  assume a: "(\<forall>c\<in>set claims. Claim_IsValid (ent L) c) \<and>
    (\<forall>c\<in>set claims. Claim_String (ent L) c \<notin> {''authorized'', ''user_id'', ''exp''})"
  let ?p = "claimFlags (ent L) (standardClaims now userid) claims"
  from a have v: "validateClaims (ent L) claims = None"
    by (simp add: validateClaims_None_iff)
  have tok: "createToken L now userid jwtSecret claims =
      SignedString (jw L) SigningMethodHS256 ?p jwtSecret"
    by (simp add: createToken_def v)
  from a have nr: "''authorized'' \<notin> Claim_String (ent L) ` set claims"
    "''user_id'' \<notin> Claim_String (ent L) ` set claims"
    "''exp'' \<notin> Claim_String (ent L) ` set claims"
    by auto
  have p1: "?p ''authorized'' = Some (BoolV True)"
    using nr(1) by (simp add: claimFlags_apply standardClaims_def)
  have p2: "?p ''user_id'' = Some (StringV userid)"
    using nr(2) by (simp add: claimFlags_apply standardClaims_def)
  have p3: "?p ''exp'' = Some (Int64V (Unix now + 168 * 3600))"
    using nr(3) by (simp add: claimFlags_apply standardClaims_def Unix_Add_168h)
  have p4: "\<forall>c\<in>set claims. ?p (Claim_String (ent L) c) = Some (BoolV True)"
    by (simp add: claimFlags_apply)
  have p5: "dom ?p = {''authorized'', ''user_id'', ''exp''} \<union> Claim_String (ent L) ` set claims"
    by (auto simp: claimFlags_apply standardClaims_def dom_def split: if_splits)
  from tok p1 p2 p3 p4 p5 show "\<exists>payload.
       createToken L now userid jwtSecret claims =
         SignedString (jw L) SigningMethodHS256 payload jwtSecret
       \<and> payload ''authorized'' = Some (BoolV True)
       \<and> payload ''user_id'' = Some (StringV userid)
       \<and> payload ''exp'' = Some (Int64V (Unix now + 168 * 3600))
       \<and> (\<forall>c\<in>set claims. payload (Claim_String (ent L) c) = Some (BoolV True))
       \<and> dom payload = {''authorized'', ''user_id'', ''exp''} \<union> Claim_String (ent L) ` set claims"
    by blast
next
  assume n: "\<not> (\<forall>c\<in>set claims. Claim_IsValid (ent L) c)"
  then obtain c where c: "find (\<lambda>c. \<not> Claim_IsValid (ent L) c) claims = Some c"
    by (cases "find (\<lambda>c. \<not> Claim_IsValid (ent L) c) claims") (auto simp: find_None_iff)
  then have "c \<in> set claims" "\<not> Claim_IsValid (ent L) c"
    by (auto simp: find_Some_iff)
  moreover have "createToken L now userid jwtSecret claims =
      Inl (Errorf ''not valid claim detected: %d'' [c])"
    by (simp add: createToken_def validateClaims_first_invalid [OF c])
  ultimately show "\<exists>c\<in>set claims. \<not> Claim_IsValid (ent L) c \<and>
         createToken L now userid jwtSecret claims =
           Inl (Errorf ''not valid claim detected: %d'' [c])"
    by blast
qed

theorem createToken_witness:
  "(\<exists>payload.
      createToken mem_libs 5000000000 ''abc'' ''secret'' [0] =
        SignedString mem_jwt SigningMethodHS256 payload ''secret''
      \<and> payload ''authorized'' = Some (BoolV True)
      \<and> payload ''user_id'' = Some (StringV ''abc'')
      \<and> payload ''exp'' = Some (Int64V 604805)
      \<and> payload ''admin'' = Some (BoolV True)
      \<and> dom payload = {''authorized'', ''user_id'', ''exp'', ''admin''})
   \<and> createToken mem_libs 5000000000 ''abc'' ''secret'' [0] = Inr ''secret.abc''
   \<and> createToken mem_libs 5000000000 ''abc'' ''secret'' [0, 5, 1] =
       Inl (Errorf ''not valid claim detected: %d'' [5])"
proof -
  have v: "(\<forall>c\<in>set [0]. Claim_IsValid (ent mem_libs) c) \<and>
    (\<forall>c\<in>set [0]. Claim_String (ent mem_libs) c \<notin> {''authorized'', ''user_id'', ''exp''})"
    by (simp add: mem_libs_def mem_entities_def)
  have n: "\<not> (\<forall>c\<in>set [0, 5, 1]. Claim_IsValid (ent mem_libs) c)"
    by (simp add: mem_libs_def mem_entities_def)
  have a: "\<exists>payload.
      createToken mem_libs 5000000000 ''abc'' ''secret'' [0] =
        SignedString mem_jwt SigningMethodHS256 payload ''secret''
      \<and> payload ''authorized'' = Some (BoolV True)
      \<and> payload ''user_id'' = Some (StringV ''abc'')
      \<and> payload ''exp'' = Some (Int64V 604805)
      \<and> payload ''admin'' = Some (BoolV True)
      \<and> dom payload = {''authorized'', ''user_id'', ''exp'', ''admin''}"
    using createToken_payload [of "[0]" mem_libs 5000000000 "''abc''" "''secret''"] v
    by (simp add: mem_libs_def mem_entities_def Unix_def insert_commute)
  have b: "createToken mem_libs 5000000000 ''abc'' ''secret'' [0] = Inr ''secret.abc''"
    by (simp add: createToken_def mem_libs_def mem_entities_def mem_jwt_def standardClaims_def)
  have c: "createToken mem_libs 5000000000 ''abc'' ''secret'' [0, 5, 1] =
       Inl (Errorf ''not valid claim detected: %d'' [5])"
    using createToken_payload [of "[0, 5, 1]" mem_libs 5000000000 "''abc''" "''secret''"] n
    by (simp add: mem_libs_def mem_entities_def)
  from a b c show ?thesis by blast
qed

subsection \<open>Evaluating the in-memory instance\<close>



lemma check_alice:
  "checkPasswordHash (bc mem_libs) p (PasswordHash alice) = (p = ''pw'')"
  by (auto simp add: checkPasswordHash_def mem_libs_def mem_bcrypt_def alice_def mem_mismatch_def)

lemma mem_GetByID_db1:
  "repo_GetByID (repo mem_service) Plain db1 alice_id = Inr alice"
  by (simp add: mem_service_def mem_repo_def mem_GetByID_def db1_def mem_docs_def alice_def
      alice_id_def)

lemma mem_hash:
  "hashPassword (bc mem_libs) rnd p =
     (case rnd of None \<Rightarrow> Inl (LibError ''no entropy'') | Some salt \<Rightarrow> Inr (salt # p))"
  by (simp add: hashPassword_def mem_libs_def mem_bcrypt_def split: option.splits)

lemma Hex_ID_alice: "Hex (ID alice) = alice_id"
  by (simp add: alice_def alice_id_def)

lemma mem_Update_db1:
  "Hex (ID doc) = alice_id \<Longrightarrow>
   repo_Update (repo mem_service) Plain db1 alice_id doc False = (None, db1\<lparr>committed := [doc]\<rparr>)"
  by (simp add: mem_service_def mem_repo_def mem_Update_def mem_has_def mem_docs_def
      mem_store_def db1_def Hex_ID_alice)

lemma mem_Update_then_GetByID:
  "\<forall>doc d. repo_Update (repo mem_service) c d0 i doc False = (None, d) \<longrightarrow>
     repo_GetByID (repo mem_service) c d i = Inr doc"
proof (intro allI impI)
  fix doc d
  assume a: "repo_Update (repo mem_service) c d0 i doc False = (None, d)"
  have f: "\<And>xs. list_ex (\<lambda>x. Hex (ID x) = Hex (ID doc)) xs \<Longrightarrow>
      find (\<lambda>x. Hex (ID x) = Hex (ID doc))
        (map (\<lambda>x. if Hex (ID x) = Hex (ID doc) then doc else x) xs) = Some doc"
    subgoal for xs by (induction xs) auto
    done
  from a show "repo_GetByID (repo mem_service) c d i = Inr doc"
    by (cases c; cases "working d0")
      (auto simp add: mem_service_def mem_repo_def mem_Update_def mem_GetByID_def mem_has_def
        mem_docs_def mem_store_def f split: if_splits)
qed

lemma find_appended:
  "\<not> list_ex P xs \<Longrightarrow> P x \<Longrightarrow> find P (xs @ [x]) = Some x"
  by (induction xs) auto

lemma mem_Create_then_GetByID:
  "\<forall>doc i d. repo_Create (repo mem_service) c d0 doc = (Inr i, d) \<longrightarrow>
     repo_GetByID (repo mem_service) c d i = Inr doc"
proof (intro allI impI)
  fix doc i d
  assume a: "repo_Create (repo mem_service) c d0 doc = (Inr i, d)"
  then show "repo_GetByID (repo mem_service) c d i = Inr doc"
    by (cases c; cases "working d0")
      (auto simp add: mem_service_def mem_repo_def mem_Create_def mem_GetByID_def mem_has_def
        mem_docs_def mem_store_def find_appended split: if_splits)
qed

lemma mem_IsValid: "Claim_IsValid (ent mem_libs) c = (c = 0 \<or> c = 1)"
  by (simp add: mem_libs_def mem_entities_def)

lemma mem_Create_db1:
  "Hex (ID doc) \<noteq> alice_id \<Longrightarrow>
   repo_Create (repo mem_service) Plain db1 doc =
     (Inr (Hex (ID doc)), db1\<lparr>committed := [alice, doc]\<rparr>)"
  by (simp add: mem_service_def mem_repo_def mem_Create_def mem_has_def mem_docs_def
      mem_store_def db1_def Hex_ID_alice)

lemma Create_bob:
  "Create mem_libs mem_service Plain db1 3000 (ObjectID bob_id) (Some CHR ''t'') newUser =
     (Inr \<lparr>InsertedID = bob_id\<rparr>, db1_bob)"
  by (simp add: Create_def mem_hash mem_IsValid newUser_def mem_Create_db1 bob_id_def
      alice_id_def db1_bob_def)

lemma mem_start:
  "\<forall>d x d'. StartSession (client mem_service) d = (x, d') \<longrightarrow> committed d' = committed d"
  by (auto simp add: mem_service_def mem_client_def mem_StartSession_def split: if_splits)

lemma mem_finish:
  "\<forall>sess c d. committed (EndSession (client mem_service) sess c d) = committed d"
  by (simp add: mem_service_def mem_client_def mem_EndSession_def)

lemma mem_insert:
  "\<forall>sc d doc i d'. repo_Create (repo mem_service) sc d doc = (Inr i, d') \<longrightarrow>
     mem_docs sc d' = mem_docs sc d @ [doc]"
proof (intro allI impI)
  fix sc d doc i d'
  assume "repo_Create (repo mem_service) sc d doc = (Inr i, d')"
  then show "mem_docs sc d' = mem_docs sc d @ [doc]"
    by (cases sc; cases "working d")
      (auto simp add: mem_service_def mem_repo_def mem_Create_def mem_docs_def mem_store_def
        split: if_splits)
qed

lemma mem_Create_in_txn:
  "working d = Some w \<Longrightarrow> repo_Create (repo mem_service) InSession d doc = (r, d') \<Longrightarrow>
   committed d' = committed d \<and> working d' \<noteq> None"
  by (auto simp add: mem_service_def mem_repo_def mem_Create_def mem_docs_def mem_store_def
      split: if_splits)

lemma mem_callback_in_txn:
  assumes "working d = Some w"
    and "callback mem_service oid1 oid2 h1 h2 InSession d = (r, d')"
  shows "committed d' = committed d"
proof -
  obtain r1 d1 where
    c1: "repo_Create (repo mem_service) InSession d (demoEntity oid1 ''Entity1'' h1) = (r1, d1)"
    by (cases "repo_Create (repo mem_service) InSession d (demoEntity oid1 ''Entity1'' h1)")
  from mem_Create_in_txn [OF assms(1) c1] obtain w1 where
    k1: "committed d1 = committed d" "working d1 = Some w1"
    by auto
  obtain r2 d2 where
    c2: "repo_Create (repo mem_service) InSession d1 (demoEntity oid2 ''Entity2'' h2) = (r2, d2)"
    by (cases "repo_Create (repo mem_service) InSession d1 (demoEntity oid2 ''Entity2'' h2)")
  from mem_Create_in_txn [OF k1(2) c2] have k2: "committed d2 = committed d1"
    by simp
  from assms(2) c1 c2 k1 k2 show ?thesis
    by (auto simp add: callback_def split: sum.splits)
qed

lemma mem_txn:
  "\<forall>sess c h1 h2 opts d r d'.
     WithTransaction (client mem_service) sess c (callback mem_service oid1 oid2 h1 h2) opts d =
       (r, d') \<longrightarrow>
     (r \<noteq> None \<and> committed d' = committed d) \<or>
     (\<exists>sc d0 d1. mem_docs sc d0 = committed d \<and>
        callback mem_service oid1 oid2 h1 h2 sc d0 = (None, d1) \<and> committed d' = mem_docs sc d1)"
proof (intro allI impI)
  fix sess c h1 h2 opts d r d'
  assume a: "WithTransaction (client mem_service) sess c (callback mem_service oid1 oid2 h1 h2)
    opts d = (r, d')"
  let ?d0 = "d\<lparr>working := Some (committed d)\<rparr>"
  obtain r1 d1 where c: "callback mem_service oid1 oid2 h1 h2 InSession ?d0 = (r1, d1)"
    by (cases "callback mem_service oid1 oid2 h1 h2 InSession ?d0")
  have k: "committed d1 = committed d"
    using mem_callback_in_txn [OF _ c] by simp
  have v: "mem_docs InSession ?d0 = committed d"
    by (simp add: mem_docs_def)
  show "(r \<noteq> None \<and> committed d' = committed d) \<or>
     (\<exists>sc d0 d1. mem_docs sc d0 = committed d \<and>
        callback mem_service oid1 oid2 h1 h2 sc d0 = (None, d1) \<and> committed d' = mem_docs sc d1)"
  proof (cases r1)
    case None
    with a c have "committed d' = mem_docs InSession d1"
      by (auto simp add: mem_service_def mem_client_def mem_WithTransaction_def)
    with v c None show ?thesis by blast
  next
    case (Some err)
    with a c k have "r \<noteq> None \<and> committed d' = committed d"
      by (auto simp add: mem_service_def mem_client_def mem_WithTransaction_def)
    then show ?thesis by blast
  qed
qed

lemma Atomic_run_both:
  "AtomicTransationProof mem_libs mem_service Plain db1 (Some CHR ''a'') (Some CHR ''b'')
      (ObjectID e1_id) (ObjectID e2_id) = (None, db1_entities)"
  by (simp add: AtomicTransationProof_def mem_hash callback_def mem_service_def mem_client_def
      mem_repo_def mem_StartSession_def mem_EndSession_def mem_WithTransaction_def
      mem_Create_def mem_has_def mem_docs_def mem_store_def db1_def db1_entities_def
      demoEntity_def alice_def e1_id_def e2_id_def)

lemma Atomic_run_duplicate:
  "AtomicTransationProof mem_libs mem_service Plain db1 (Some CHR ''a'') (Some CHR ''b'')
      (ObjectID e1_id) (ObjectID alice_id) = (Some mem_duplicate_key, db1)"
  by (simp add: AtomicTransationProof_def mem_hash callback_def mem_service_def mem_client_def
      mem_repo_def mem_StartSession_def mem_EndSession_def mem_WithTransaction_def
      mem_Create_def mem_has_def mem_docs_def mem_store_def db1_def
      demoEntity_def alice_def e1_id_def alice_id_def)

lemma mem_second_insert_blocked:
  "\<forall>sc d0 h1 i d1 h2 j d2.
     mem_docs sc d0 = committed db1 \<and>
     repo_Create (repo mem_service) sc d0 (demoEntity (ObjectID e1_id) ''Entity1'' h1) = (Inr i, d1)
     \<longrightarrow> repo_Create (repo mem_service) sc d1 (demoEntity (ObjectID alice_id) ''Entity2'' h2)
       \<noteq> (Inr j, d2)"
proof (intro allI impI)
  fix sc d0 h1 i d1 h2 j d2
  assume a: "mem_docs sc d0 = committed db1 \<and>
     repo_Create (repo mem_service) sc d0 (demoEntity (ObjectID e1_id) ''Entity1'' h1) = (Inr i, d1)"
  with mem_insert have "mem_docs sc d1 = committed db1 @ [demoEntity (ObjectID e1_id) ''Entity1'' h1]"
    by metis
  then have "mem_has alice_id (mem_docs sc d1)"
    by (simp add: mem_has_def db1_def Hex_ID_alice)
  then show "repo_Create (repo mem_service) sc d1 (demoEntity (ObjectID alice_id) ''Entity2'' h2)
       \<noteq> (Inr j, d2)"
    by (simp add: mem_service_def mem_repo_def mem_Create_def demoEntity_def)
qed

subsection \<open>Login\<close>



subsection \<open>GetClaims\<close>

text \<open>
  C9. \<open>GetClaims\<close> returns the enumeration of claim codes with their display names
  and the result of pinging the backend: its error is the ping's error, so it fails
  exactly when the ping fails, and the enumeration is returned in full either way.
\<close>

theorem GetClaims_fails_iff_Ping_fails:
  "fst (GetClaims L s ctx db) = entities_GetClaims (ent L)
   \<and> snd (GetClaims L s ctx db) = Ping (client s) ctx db
   \<and> ((\<exists>err. snd (GetClaims L s ctx db) = Some err) = (\<exists>err. Ping (client s) ctx db = Some err))"
  by (simp add: GetClaims_def)

theorem GetClaims_witness:
  "GetClaims mem_libs mem_service Plain db1 = ([0 \<mapsto> ''admin'', 1 \<mapsto> ''operator''], None)
   \<and> GetClaims mem_libs mem_service Plain (db1\<lparr>reachable := False\<rparr>) =
       ([0 \<mapsto> ''admin'', 1 \<mapsto> ''operator''], Some mem_unreachable)"
  using GetClaims_fails_iff_Ping_fails [of mem_libs mem_service Plain db1]
    GetClaims_fails_iff_Ping_fails [of mem_libs mem_service Plain "db1\<lparr>reachable := False\<rparr>"]
  by (simp add: prod_eq_iff mem_libs_def mem_entities_def mem_service_def mem_client_def
      mem_Ping_def db1_def)

subsection \<open>Update\<close>

text \<open>
  C1. For every stored user and every request that supplies a new password with an old
  password that does not verify against the stored hash, \<open>Update\<close> returns the error
  \<open>old password incorrect\<close> and the store it returns is the store it was given: no
  write is issued. The same holds when hashing the new password fails and when the
  supplied claims do not validate. Whenever the store does change, it is the result
  of the one replace-by-id at the end of \<open>Update\<close>.
\<close>

theorem Update_failure_writes_nothing:
  assumes "repo_GetByID (repo s) ctx db ident = Inr stored"
  shows
    "(\<forall>newPassword oldPassword.
        upd_NewPassword u = Some newPassword \<and> upd_OldPassword u = Some oldPassword \<and>
        \<not> checkPasswordHash (bc L) oldPassword (PasswordHash stored) \<longrightarrow>
        Update L s ctx db now rnd ident u =
          (Return (Some (Errorf ''old password incorrect'' [])), db))
     \<and> (\<forall>newPassword oldPassword err.
        upd_NewPassword u = Some newPassword \<and> upd_OldPassword u = Some oldPassword \<and>
        checkPasswordHash (bc L) oldPassword (PasswordHash stored) \<and>
        hashPassword (bc L) rnd newPassword = Inl err \<longrightarrow>
        Update L s ctx db now rnd ident u = (Return (Some err), db))
     \<and> (\<forall>claims err.
        (upd_NewPassword u = None \<or>
         (\<exists>newPassword oldPassword h.
            upd_NewPassword u = Some newPassword \<and> upd_OldPassword u = Some oldPassword \<and>
            checkPasswordHash (bc L) oldPassword (PasswordHash stored) \<and>
            hashPassword (bc L) rnd newPassword = Inr h)) \<and>
        upd_Claims u = Some claims \<and> validateClaims (ent L) claims = Some err \<longrightarrow>
        Update L s ctx db now rnd ident u = (Return (Some err), db))
     \<and> (\<forall>res db'.
        Update L s ctx db now rnd ident u = (res, db') \<and> db' \<noteq> db \<longrightarrow>
        (\<exists>doc err. repo_Update (repo s) ctx db ident doc False = (err, db') \<and> res = Return err))"
proof (intro conjI allI impI)
  fix newPassword oldPassword
  assume "upd_NewPassword u = Some newPassword \<and> upd_OldPassword u = Some oldPassword \<and>
        \<not> checkPasswordHash (bc L) oldPassword (PasswordHash stored)"
  then show "Update L s ctx db now rnd ident u =
          (Return (Some (Errorf ''old password incorrect'' [])), db)"
    using assms by (simp add: Update_def applyPassword_def)
next
  fix newPassword oldPassword err
  assume "upd_NewPassword u = Some newPassword \<and> upd_OldPassword u = Some oldPassword \<and>
        checkPasswordHash (bc L) oldPassword (PasswordHash stored) \<and>
        hashPassword (bc L) rnd newPassword = Inl err"
  then show "Update L s ctx db now rnd ident u = (Return (Some err), db)"
    using assms by (simp add: Update_def applyPassword_def)
next
  fix claims err
  assume "(upd_NewPassword u = None \<or>
         (\<exists>newPassword oldPassword h.
            upd_NewPassword u = Some newPassword \<and> upd_OldPassword u = Some oldPassword \<and>
            checkPasswordHash (bc L) oldPassword (PasswordHash stored) \<and>
            hashPassword (bc L) rnd newPassword = Inr h)) \<and>
        upd_Claims u = Some claims \<and> validateClaims (ent L) claims = Some err"
  then show "Update L s ctx db now rnd ident u = (Return (Some err), db)"
    using assms by (auto simp add: Update_def applyPassword_def applyClaims_def)
next
  fix res db'
  assume "Update L s ctx db now rnd ident u = (res, db') \<and> db' \<noteq> db"
  then show "\<exists>doc err. repo_Update (repo s) ctx db ident doc False = (err, db') \<and> res = Return err"
    using assms
    by (auto simp add: Update_def split: go.splits sum.splits prod.splits option.splits)
qed

theorem Update_failure_witness:
  "Update mem_libs mem_service Plain db1 2000 (Some CHR ''t'') alice_id
      (noChange\<lparr>upd_Name := Some ''Alicia'', upd_OldPassword := Some ''guess'',
                upd_NewPassword := Some ''new''\<rparr>) =
     (Return (Some (Errorf ''old password incorrect'' [])), db1)
   \<and> Update mem_libs mem_service Plain db1 2000 None alice_id
      (noChange\<lparr>upd_Name := Some ''Alicia'', upd_OldPassword := Some ''pw'',
                upd_NewPassword := Some ''new''\<rparr>) =
     (Return (Some (LibError ''no entropy'')), db1)
   \<and> Update mem_libs mem_service Plain db1 2000 (Some CHR ''t'') alice_id
      (noChange\<lparr>upd_Name := Some ''Alicia'', upd_Claims := Some [0, 7]\<rparr>) =
     (Return (Some (Errorf ''not valid claim detected: %d'' [7])), db1)"
proof -
  note t = Update_failure_writes_nothing [OF mem_GetByID_db1, where L = mem_libs and now = 2000]
  have a: "Update mem_libs mem_service Plain db1 2000 (Some CHR ''t'') alice_id
      (noChange\<lparr>upd_Name := Some ''Alicia'', upd_OldPassword := Some ''guess'',
                upd_NewPassword := Some ''new''\<rparr>) =
     (Return (Some (Errorf ''old password incorrect'' [])), db1)"
    by (rule t [THEN conjunct1, rule_format, of _ "''new''" "''guess''"])
      (simp add: check_alice noChange_def)
  have b: "Update mem_libs mem_service Plain db1 2000 None alice_id
      (noChange\<lparr>upd_Name := Some ''Alicia'', upd_OldPassword := Some ''pw'',
                upd_NewPassword := Some ''new''\<rparr>) =
     (Return (Some (LibError ''no entropy'')), db1)"
    by (rule t [THEN conjunct2, THEN conjunct1, rule_format, of _ "''new''" "''pw''"])
      (simp add: check_alice noChange_def mem_hash)
  have c: "Update mem_libs mem_service Plain db1 2000 (Some CHR ''t'') alice_id
      (noChange\<lparr>upd_Name := Some ''Alicia'', upd_Claims := Some [0, 7]\<rparr>) =
     (Return (Some (Errorf ''not valid claim detected: %d'' [7])), db1)"
    by (rule t [THEN conjunct2, THEN conjunct2, THEN conjunct1, rule_format, of _ _ "[0, 7]"])
      (simp add: noChange_def mem_libs_def mem_entities_def)
  from a b c show ?thesis by blast
qed

text \<open>
  C2. \<open>Update\<close> is a merge-patch. For every stored user and every request that passes
  the checks (no new password, or an old password that verifies and a new one that
  hashes; no claims, or claims that validate), \<open>Update\<close> issues one replace-by-id and
  returns its result, and the document it writes has each of name, surnames, email and
  claims equal to the value of the request when present and to the stored value when
  absent; the password hash is the stored one when no new password is given and the hash
  of the new password otherwise; id and creation time are the stored ones;
  \<open>updatedAt\<close> is the time of the call. Conversely, whenever \<open>Update\<close> returns nil
  the store it returns is the result of replacing with that document, and reading the
  id back yields it when the repository returns on a read what a replace stored. So a
  request with only a name changes the name and \<open>updatedAt\<close> and nothing else.
\<close>

theorem Update_merge_patch:
  assumes lookup: "repo_GetByID (repo s) ctx db ident = Inr stored"
  shows
    "((upd_NewPassword u = None \<or>
       (\<exists>newPassword oldPassword h.
          upd_NewPassword u = Some newPassword \<and> upd_OldPassword u = Some oldPassword \<and>
          checkPasswordHash (bc L) oldPassword (PasswordHash stored) \<and>
          hashPassword (bc L) rnd newPassword = Inr h)) \<and>
      (\<forall>claims. upd_Claims u = Some claims \<longrightarrow> validateClaims (ent L) claims = None) \<longrightarrow>
      (\<exists>doc.
         Update L s ctx db now rnd ident u =
           (case repo_Update (repo s) ctx db ident doc False of
              (err, db') \<Rightarrow> (Return err, db'))
         \<and> Name doc = (case upd_Name u of None \<Rightarrow> Name stored | Some n \<Rightarrow> n)
         \<and> Surnames doc = (case upd_Surnames u of None \<Rightarrow> Surnames stored | Some n \<Rightarrow> n)
         \<and> Email doc = (case upd_Email u of None \<Rightarrow> Email stored | Some e \<Rightarrow> e)
         \<and> Claims doc = (case upd_Claims u of None \<Rightarrow> Claims stored | Some c \<Rightarrow> c)
         \<and> (case upd_NewPassword u of
               None \<Rightarrow> PasswordHash doc = PasswordHash stored
             | Some newPassword \<Rightarrow> hashPassword (bc L) rnd newPassword = Inr (PasswordHash doc))
         \<and> ID doc = ID stored
         \<and> CreatedAt doc = CreatedAt stored
         \<and> UpdatedAt doc = now))
     \<and> (\<forall>db'.
          Update L s ctx db now rnd ident u = (Return None, db') \<longrightarrow>
          (\<exists>doc.
             repo_Update (repo s) ctx db ident doc False = (None, db')
             \<and> Name doc = (case upd_Name u of None \<Rightarrow> Name stored | Some n \<Rightarrow> n)
             \<and> Surnames doc = (case upd_Surnames u of None \<Rightarrow> Surnames stored | Some n \<Rightarrow> n)
             \<and> Email doc = (case upd_Email u of None \<Rightarrow> Email stored | Some e \<Rightarrow> e)
             \<and> Claims doc = (case upd_Claims u of None \<Rightarrow> Claims stored | Some c \<Rightarrow> c)
             \<and> (case upd_NewPassword u of
                   None \<Rightarrow> PasswordHash doc = PasswordHash stored
                 | Some newPassword \<Rightarrow>
                     hashPassword (bc L) rnd newPassword = Inr (PasswordHash doc))
             \<and> ID doc = ID stored
             \<and> CreatedAt doc = CreatedAt stored
             \<and> UpdatedAt doc = now
             \<and> ((\<forall>x d. repo_Update (repo s) ctx db ident x False = (None, d) \<longrightarrow>
                    repo_GetByID (repo s) ctx d ident = Inr x) \<longrightarrow>
                 repo_GetByID (repo s) ctx db' ident = Inr doc)))"
proof -
  have forward: "(upd_NewPassword u = None \<or>
       (\<exists>newPassword oldPassword h.
          upd_NewPassword u = Some newPassword \<and> upd_OldPassword u = Some oldPassword \<and>
          checkPasswordHash (bc L) oldPassword (PasswordHash stored) \<and>
          hashPassword (bc L) rnd newPassword = Inr h)) \<and>
      (\<forall>claims. upd_Claims u = Some claims \<longrightarrow> validateClaims (ent L) claims = None) \<longrightarrow>
      (\<exists>doc.
         Update L s ctx db now rnd ident u =
           (case repo_Update (repo s) ctx db ident doc False of
              (err, db') \<Rightarrow> (Return err, db'))
         \<and> Name doc = (case upd_Name u of None \<Rightarrow> Name stored | Some n \<Rightarrow> n)
         \<and> Surnames doc = (case upd_Surnames u of None \<Rightarrow> Surnames stored | Some n \<Rightarrow> n)
         \<and> Email doc = (case upd_Email u of None \<Rightarrow> Email stored | Some e \<Rightarrow> e)
         \<and> Claims doc = (case upd_Claims u of None \<Rightarrow> Claims stored | Some c \<Rightarrow> c)
         \<and> (case upd_NewPassword u of
               None \<Rightarrow> PasswordHash doc = PasswordHash stored
             | Some newPassword \<Rightarrow> hashPassword (bc L) rnd newPassword = Inr (PasswordHash doc))
         \<and> ID doc = ID stored
         \<and> CreatedAt doc = CreatedAt stored
         \<and> UpdatedAt doc = now)"
  proof
    assume checks: "(upd_NewPassword u = None \<or>
       (\<exists>newPassword oldPassword h.
          upd_NewPassword u = Some newPassword \<and> upd_OldPassword u = Some oldPassword \<and>
          checkPasswordHash (bc L) oldPassword (PasswordHash stored) \<and>
          hashPassword (bc L) rnd newPassword = Inr h)) \<and>
      (\<forall>claims. upd_Claims u = Some claims \<longrightarrow> validateClaims (ent L) claims = None)"
    then obtain user1 where p: "applyPassword L rnd u (applyNames u stored) = Return (Inr user1)"
      using applyPassword_passes [of u L "applyNames u stored" rnd] by auto
    from checks obtain user2 where c: "applyClaims L u user1 = Inr user2"
      using applyClaims_passes [of u L user1] by auto
    from Update_reaches_replace [OF lookup p c] Update_written_document [OF p c]
    show "\<exists>doc.
         Update L s ctx db now rnd ident u =
           (case repo_Update (repo s) ctx db ident doc False of
              (err, db') \<Rightarrow> (Return err, db'))
         \<and> Name doc = (case upd_Name u of None \<Rightarrow> Name stored | Some n \<Rightarrow> n)
         \<and> Surnames doc = (case upd_Surnames u of None \<Rightarrow> Surnames stored | Some n \<Rightarrow> n)
         \<and> Email doc = (case upd_Email u of None \<Rightarrow> Email stored | Some e \<Rightarrow> e)
         \<and> Claims doc = (case upd_Claims u of None \<Rightarrow> Claims stored | Some c \<Rightarrow> c)
         \<and> (case upd_NewPassword u of
               None \<Rightarrow> PasswordHash doc = PasswordHash stored
             | Some newPassword \<Rightarrow> hashPassword (bc L) rnd newPassword = Inr (PasswordHash doc))
         \<and> ID doc = ID stored
         \<and> CreatedAt doc = CreatedAt stored
         \<and> UpdatedAt doc = now"
      by blast
  qed
  have backward: "\<forall>db'.
          Update L s ctx db now rnd ident u = (Return None, db') \<longrightarrow>
          (\<exists>doc.
             repo_Update (repo s) ctx db ident doc False = (None, db')
             \<and> Name doc = (case upd_Name u of None \<Rightarrow> Name stored | Some n \<Rightarrow> n)
             \<and> Surnames doc = (case upd_Surnames u of None \<Rightarrow> Surnames stored | Some n \<Rightarrow> n)
             \<and> Email doc = (case upd_Email u of None \<Rightarrow> Email stored | Some e \<Rightarrow> e)
             \<and> Claims doc = (case upd_Claims u of None \<Rightarrow> Claims stored | Some c \<Rightarrow> c)
             \<and> (case upd_NewPassword u of
                   None \<Rightarrow> PasswordHash doc = PasswordHash stored
                 | Some newPassword \<Rightarrow>
                     hashPassword (bc L) rnd newPassword = Inr (PasswordHash doc))
             \<and> ID doc = ID stored
             \<and> CreatedAt doc = CreatedAt stored
             \<and> UpdatedAt doc = now
             \<and> ((\<forall>x d. repo_Update (repo s) ctx db ident x False = (None, d) \<longrightarrow>
                    repo_GetByID (repo s) ctx d ident = Inr x) \<longrightarrow>
                 repo_GetByID (repo s) ctx db' ident = Inr doc))"
  proof (intro allI impI)
    fix db'
    assume ok: "Update L s ctx db now rnd ident u = (Return None, db')"
    with lookup obtain user1 user2 where
      p: "applyPassword L rnd u (applyNames u stored) = Return (Inr user1)" and
      c: "applyClaims L u user1 = Inr user2" and
      w: "repo_Update (repo s) ctx db ident (user2\<lparr>UpdatedAt := now\<rparr>) False = (None, db')"
      by (auto simp add: Update_def Let_def split: go.splits sum.splits prod.splits option.splits)
    from w have rb: "(\<forall>x d. repo_Update (repo s) ctx db ident x False = (None, d) \<longrightarrow>
                    repo_GetByID (repo s) ctx d ident = Inr x) \<longrightarrow>
                 repo_GetByID (repo s) ctx db' ident = Inr (user2\<lparr>UpdatedAt := now\<rparr>)"
      by blast
    from w rb Update_written_document [OF p c]
    show "\<exists>doc.
             repo_Update (repo s) ctx db ident doc False = (None, db')
             \<and> Name doc = (case upd_Name u of None \<Rightarrow> Name stored | Some n \<Rightarrow> n)
             \<and> Surnames doc = (case upd_Surnames u of None \<Rightarrow> Surnames stored | Some n \<Rightarrow> n)
             \<and> Email doc = (case upd_Email u of None \<Rightarrow> Email stored | Some e \<Rightarrow> e)
             \<and> Claims doc = (case upd_Claims u of None \<Rightarrow> Claims stored | Some c \<Rightarrow> c)
             \<and> (case upd_NewPassword u of
                   None \<Rightarrow> PasswordHash doc = PasswordHash stored
                 | Some newPassword \<Rightarrow>
                     hashPassword (bc L) rnd newPassword = Inr (PasswordHash doc))
             \<and> ID doc = ID stored
             \<and> CreatedAt doc = CreatedAt stored
             \<and> UpdatedAt doc = now
             \<and> ((\<forall>x d. repo_Update (repo s) ctx db ident x False = (None, d) \<longrightarrow>
                    repo_GetByID (repo s) ctx d ident = Inr x) \<longrightarrow>
                 repo_GetByID (repo s) ctx db' ident = Inr doc)"
      by blast
  qed
  from forward backward show ?thesis by blast
qed

theorem Update_merge_patch_witness:
  "Update mem_libs mem_service Plain db1 2000 (Some CHR ''t'') alice_id
      (noChange\<lparr>upd_Name := Some ''Alicia''\<rparr>) = (Return None, db1_renamed)
   \<and> repo_GetByID (repo mem_service) Plain db1_renamed alice_id =
       Inr (alice\<lparr>Name := ''Alicia'', UpdatedAt := 2000\<rparr>)
   \<and> Update mem_libs mem_service Plain db1 2000 (Some CHR ''t'') alice_id
      (noChange\<lparr>upd_Email := Some ''al@example.org'', upd_OldPassword := Some ''pw'',
                upd_NewPassword := Some ''new'', upd_Claims := Some [1, 0]\<rparr>) =
       (Return None, db1_repatched)"
proof -
  note t = Update_merge_patch [OF mem_GetByID_db1, where L = mem_libs and now = 2000
    and rnd = "Some CHR ''t''"]
  let ?u1 = "noChange\<lparr>upd_Name := Some ''Alicia''\<rparr>"
  let ?u2 = "noChange\<lparr>upd_Email := Some ''al@example.org'', upd_OldPassword := Some ''pw'',
                upd_NewPassword := Some ''new'', upd_Claims := Some [1, 0]\<rparr>"
  have checks1: "(upd_NewPassword ?u1 = None \<or>
       (\<exists>newPassword oldPassword h.
          upd_NewPassword ?u1 = Some newPassword \<and> upd_OldPassword ?u1 = Some oldPassword \<and>
          checkPasswordHash (bc mem_libs) oldPassword (PasswordHash alice) \<and>
          hashPassword (bc mem_libs) (Some CHR ''t'') newPassword = Inr h)) \<and>
      (\<forall>claims. upd_Claims ?u1 = Some claims \<longrightarrow> validateClaims (ent mem_libs) claims = None)"
    by (simp add: noChange_def)
  from t [where u = ?u1, THEN conjunct1, rule_format, OF checks1] obtain doc where
    run1: "Update mem_libs mem_service Plain db1 2000 (Some CHR ''t'') alice_id ?u1 =
      (case repo_Update (repo mem_service) Plain db1 alice_id doc False of
         (err, db') \<Rightarrow> (Return err, db'))" and
    f1: "Name doc = ''Alicia''" "Surnames doc = Surnames alice" "Email doc = Email alice"
      "Claims doc = Claims alice" "PasswordHash doc = PasswordHash alice" "ID doc = ID alice"
      "CreatedAt doc = CreatedAt alice" "UpdatedAt doc = 2000"
    by (auto simp add: noChange_def)
  from f1 have d1: "doc = alice\<lparr>Name := ''Alicia'', UpdatedAt := 2000\<rparr>"
    by (intro User_eqI) simp_all
  from run1 have a: "Update mem_libs mem_service Plain db1 2000 (Some CHR ''t'') alice_id ?u1 =
      (Return None, db1_renamed)"
    by (simp add: d1 mem_Update_db1 Hex_ID_alice db1_renamed_def)
  from t [where u = ?u1, THEN conjunct2, rule_format, OF a] obtain doc' where
    f1': "Name doc' = ''Alicia''" "Surnames doc' = Surnames alice" "Email doc' = Email alice"
      "Claims doc' = Claims alice" "PasswordHash doc' = PasswordHash alice" "ID doc' = ID alice"
      "CreatedAt doc' = CreatedAt alice" "UpdatedAt doc' = 2000" and
    rb: "(\<forall>x d. repo_Update (repo mem_service) Plain db1 alice_id x False = (None, d) \<longrightarrow>
            repo_GetByID (repo mem_service) Plain d alice_id = Inr x) \<longrightarrow>
         repo_GetByID (repo mem_service) Plain db1_renamed alice_id = Inr doc'"
    by (auto simp add: noChange_def)
  from f1' have d1': "doc' = alice\<lparr>Name := ''Alicia'', UpdatedAt := 2000\<rparr>"
    by (intro User_eqI) simp_all
  from rb mem_Update_then_GetByID [of Plain db1 alice_id]
  have b: "repo_GetByID (repo mem_service) Plain db1_renamed alice_id =
       Inr (alice\<lparr>Name := ''Alicia'', UpdatedAt := 2000\<rparr>)"
    by (simp add: d1')
  have checks2: "(upd_NewPassword ?u2 = None \<or>
       (\<exists>newPassword oldPassword h.
          upd_NewPassword ?u2 = Some newPassword \<and> upd_OldPassword ?u2 = Some oldPassword \<and>
          checkPasswordHash (bc mem_libs) oldPassword (PasswordHash alice) \<and>
          hashPassword (bc mem_libs) (Some CHR ''t'') newPassword = Inr h)) \<and>
      (\<forall>claims. upd_Claims ?u2 = Some claims \<longrightarrow> validateClaims (ent mem_libs) claims = None)"
    by (simp add: noChange_def check_alice mem_hash validateClaims_None_iff mem_IsValid)
  from t [where u = ?u2, THEN conjunct1, rule_format, OF checks2] obtain doc2 where
    run2: "Update mem_libs mem_service Plain db1 2000 (Some CHR ''t'') alice_id ?u2 =
      (case repo_Update (repo mem_service) Plain db1 alice_id doc2 False of
         (err, db') \<Rightarrow> (Return err, db'))" and
    f2: "Name doc2 = Name alice" "Surnames doc2 = Surnames alice" "Email doc2 = ''al@example.org''"
      "Claims doc2 = [1, 0]" "PasswordHash doc2 = CHR ''t'' # ''new''" "ID doc2 = ID alice"
      "CreatedAt doc2 = CreatedAt alice" "UpdatedAt doc2 = 2000"
    by (auto simp add: noChange_def mem_hash)
  from f2 have d2: "doc2 = alice\<lparr>Email := ''al@example.org'', PasswordHash := CHR ''t'' # ''new'',
              Claims := [1, 0], UpdatedAt := 2000\<rparr>"
    by (intro User_eqI) simp_all
  from run2 have c: "Update mem_libs mem_service Plain db1 2000 (Some CHR ''t'') alice_id ?u2 =
      (Return None, db1_repatched)"
    by (simp add: d2 mem_Update_db1 Hex_ID_alice db1_repatched_def)
  from a b c show ?thesis by blast
qed

text \<open>
  C3. \<open>Update\<close> reads \<open>*u.OldPassword\<close> without a nil check. When the user is found
  and the request has a new password but no old password, \<open>Update\<close> panics with a nil
  pointer dereference instead of returning an error, and writes nothing. When the old
  password is present whenever the new one is, \<open>Update\<close> returns. A panic happens in no
  other case.
\<close>

theorem Update_nil_OldPassword_panics:
  "(\<forall>stored.
      repo_GetByID (repo s) ctx db ident = Inr stored \<and>
      upd_NewPassword u \<noteq> None \<and> upd_OldPassword u = None \<longrightarrow>
      Update L s ctx db now rnd ident u = (Panic nilDereference, db))
   \<and> ((upd_NewPassword u \<noteq> None \<longrightarrow> upd_OldPassword u \<noteq> None) \<longrightarrow>
      (\<exists>res db'. Update L s ctx db now rnd ident u = (Return res, db')))
   \<and> (\<forall>msg db'.
      Update L s ctx db now rnd ident u = (Panic msg, db') \<longrightarrow>
      (\<exists>stored. repo_GetByID (repo s) ctx db ident = Inr stored) \<and>
      upd_NewPassword u \<noteq> None \<and> upd_OldPassword u = None \<and> db' = db)"
proof -
  have panics: "\<forall>stored.
      repo_GetByID (repo s) ctx db ident = Inr stored \<and>
      upd_NewPassword u \<noteq> None \<and> upd_OldPassword u = None \<longrightarrow>
      Update L s ctx db now rnd ident u = (Panic nilDereference, db)"
    by (auto simp add: Update_def applyPassword_def)
  have returns: "(upd_NewPassword u \<noteq> None \<longrightarrow> upd_OldPassword u \<noteq> None) \<longrightarrow>
      (\<exists>res db'. Update L s ctx db now rnd ident u = (Return res, db'))"
    by (auto simp add: Update_def applyPassword_def
        split: go.splits sum.splits prod.splits option.splits)
  have only: "\<forall>msg db'.
      Update L s ctx db now rnd ident u = (Panic msg, db') \<longrightarrow>
      (\<exists>stored. repo_GetByID (repo s) ctx db ident = Inr stored) \<and>
      upd_NewPassword u \<noteq> None \<and> upd_OldPassword u = None \<and> db' = db"
    by (auto simp add: Update_def applyPassword_def
        split: go.splits sum.splits prod.splits option.splits if_splits)
  from panics returns only show ?thesis by blast
qed

theorem Update_nil_OldPassword_witness:
  "Update mem_libs mem_service Plain db1 2000 (Some CHR ''t'') alice_id
      (noChange\<lparr>upd_NewPassword := Some ''new''\<rparr>) = (Panic nilDereference, db1)
   \<and> (\<exists>res db'. Update mem_libs mem_service Plain db1 2000 (Some CHR ''t'') alice_id
        (noChange\<lparr>upd_OldPassword := Some ''pw'', upd_NewPassword := Some ''new''\<rparr>) =
        (Return res, db'))"
proof -
  have a: "Update mem_libs mem_service Plain db1 2000 (Some CHR ''t'') alice_id
      (noChange\<lparr>upd_NewPassword := Some ''new''\<rparr>) = (Panic nilDereference, db1)"
    by (rule Update_nil_OldPassword_panics [THEN conjunct1, rule_format, of _ _ _ _ alice])
      (simp add: mem_GetByID_db1 noChange_def)
  have b: "\<exists>res db'. Update mem_libs mem_service Plain db1 2000 (Some CHR ''t'') alice_id
        (noChange\<lparr>upd_OldPassword := Some ''pw'', upd_NewPassword := Some ''new''\<rparr>) =
        (Return res, db')"
    by (rule Update_nil_OldPassword_panics [THEN conjunct2, THEN conjunct1, rule_format])
      (simp add: noChange_def)
  from a b show ?thesis by blast
qed

subsection \<open>Create\<close>

text \<open>
  C7. \<open>Create\<close> hashes the password, then validates the claims, and only then inserts:
  when hashing fails or the claims do not validate, it returns that error and the store
  is the one it was given. When it succeeds, the document it inserted is the input with
  the password replaced by its hash, the freshly drawn id, and \<open>createdAt\<close> and
  \<open>updatedAt\<close> both equal to the time of the call. Reading the inserted id back (the
  repository returning on a read what an insert stored) yields the same name, surnames,
  email and claims, \<open>createdAt = updatedAt\<close>, and as password hash the output of the
  hasher, which is not the plaintext when the hasher does not return its input.
\<close>

theorem Create_validates_then_inserts:
  "(\<forall>err. hashPassword (bc L) rnd (PasswordHash u) = Inl err \<longrightarrow>
      Create L s ctx db now oid rnd u = (Inl err, db))
   \<and> (\<forall>h err.
        hashPassword (bc L) rnd (PasswordHash u) = Inr h \<and>
        validateClaims (ent L) (Claims u) = Some err \<longrightarrow>
        Create L s ctx db now oid rnd u = (Inl err, db))
   \<and> (\<forall>res db'.
        Create L s ctx db now oid rnd u = (Inr res, db') \<longrightarrow>
        (\<exists>h. hashPassword (bc L) rnd (PasswordHash u) = Inr h
           \<and> validateClaims (ent L) (Claims u) = None
           \<and> repo_Create (repo s) ctx db
                (u\<lparr>PasswordHash := h, ID := oid, CreatedAt := now, UpdatedAt := now\<rparr>) =
              (Inr (InsertedID res), db')
           \<and> ((\<forall>doc i d. repo_Create (repo s) ctx db doc = (Inr i, d) \<longrightarrow>
                  repo_GetByID (repo s) ctx d i = Inr doc) \<and>
               GenerateFromPassword (bc L) rnd (PasswordHash u) DefaultCost \<noteq>
                 Inr (PasswordHash u) \<longrightarrow>
               (\<exists>got. GetByID s ctx db' (InsertedID res) = Inr got
                  \<and> Name got = Name u \<and> Surnames got = Surnames u
                  \<and> Email got = Email u \<and> Claims got = Claims u
                  \<and> ID got = oid
                  \<and> CreatedAt got = now \<and> UpdatedAt got = now
                  \<and> CreatedAt got = UpdatedAt got
                  \<and> PasswordHash got = h
                  \<and> PasswordHash got \<noteq> PasswordHash u))))"
proof -
  have hashing: "\<forall>err. hashPassword (bc L) rnd (PasswordHash u) = Inl err \<longrightarrow>
      Create L s ctx db now oid rnd u = (Inl err, db)"
    by (simp add: Create_def)
  have validation: "\<forall>h err.
        hashPassword (bc L) rnd (PasswordHash u) = Inr h \<and>
        validateClaims (ent L) (Claims u) = Some err \<longrightarrow>
        Create L s ctx db now oid rnd u = (Inl err, db)"
    by (simp add: Create_def)
  have success: "\<forall>res db'.
        Create L s ctx db now oid rnd u = (Inr res, db') \<longrightarrow>
        (\<exists>h. hashPassword (bc L) rnd (PasswordHash u) = Inr h
           \<and> validateClaims (ent L) (Claims u) = None
           \<and> repo_Create (repo s) ctx db
                (u\<lparr>PasswordHash := h, ID := oid, CreatedAt := now, UpdatedAt := now\<rparr>) =
              (Inr (InsertedID res), db')
           \<and> ((\<forall>doc i d. repo_Create (repo s) ctx db doc = (Inr i, d) \<longrightarrow>
                  repo_GetByID (repo s) ctx d i = Inr doc) \<and>
               GenerateFromPassword (bc L) rnd (PasswordHash u) DefaultCost \<noteq>
                 Inr (PasswordHash u) \<longrightarrow>
               (\<exists>got. GetByID s ctx db' (InsertedID res) = Inr got
                  \<and> Name got = Name u \<and> Surnames got = Surnames u
                  \<and> Email got = Email u \<and> Claims got = Claims u
                  \<and> ID got = oid
                  \<and> CreatedAt got = now \<and> UpdatedAt got = now
                  \<and> CreatedAt got = UpdatedAt got
                  \<and> PasswordHash got = h
                  \<and> PasswordHash got \<noteq> PasswordHash u)))"
  proof (intro allI impI)
    fix res db'
    assume c: "Create L s ctx db now oid rnd u = (Inr res, db')"
    then obtain h where
      h: "hashPassword (bc L) rnd (PasswordHash u) = Inr h" and
      v: "validateClaims (ent L) (Claims u) = None" and
      w: "repo_Create (repo s) ctx db
            (u\<lparr>PasswordHash := h, ID := oid, CreatedAt := now, UpdatedAt := now\<rparr>) =
          (Inr (InsertedID res), db')"
      by (auto simp add: Create_def Let_def split: sum.splits option.splits prod.splits)
    let ?doc = "u\<lparr>PasswordHash := h, ID := oid, CreatedAt := now, UpdatedAt := now\<rparr>"
    have roundtrip: "(\<forall>doc i d. repo_Create (repo s) ctx db doc = (Inr i, d) \<longrightarrow>
                  repo_GetByID (repo s) ctx d i = Inr doc) \<and>
               GenerateFromPassword (bc L) rnd (PasswordHash u) DefaultCost \<noteq>
                 Inr (PasswordHash u) \<longrightarrow>
               (\<exists>got. GetByID s ctx db' (InsertedID res) = Inr got
                  \<and> Name got = Name u \<and> Surnames got = Surnames u
                  \<and> Email got = Email u \<and> Claims got = Claims u
                  \<and> ID got = oid
                  \<and> CreatedAt got = now \<and> UpdatedAt got = now
                  \<and> CreatedAt got = UpdatedAt got
                  \<and> PasswordHash got = h
                  \<and> PasswordHash got \<noteq> PasswordHash u)"
    proof
      assume a: "(\<forall>doc i d. repo_Create (repo s) ctx db doc = (Inr i, d) \<longrightarrow>
                  repo_GetByID (repo s) ctx d i = Inr doc) \<and>
               GenerateFromPassword (bc L) rnd (PasswordHash u) DefaultCost \<noteq>
                 Inr (PasswordHash u)"
      with w have g: "repo_GetByID (repo s) ctx db' (InsertedID res) = Inr ?doc"
        by blast
      from a h have ne: "h \<noteq> PasswordHash u"
        by (auto simp add: hashPassword_def split: sum.splits)
      have "GetByID s ctx db' (InsertedID res) = Inr ?doc"
        by (simp add: GetByID_def g)
      with ne show "\<exists>got. GetByID s ctx db' (InsertedID res) = Inr got
                  \<and> Name got = Name u \<and> Surnames got = Surnames u
                  \<and> Email got = Email u \<and> Claims got = Claims u
                  \<and> ID got = oid
                  \<and> CreatedAt got = now \<and> UpdatedAt got = now
                  \<and> CreatedAt got = UpdatedAt got
                  \<and> PasswordHash got = h
                  \<and> PasswordHash got \<noteq> PasswordHash u"
        by simp
    qed
    from h v w roundtrip show "\<exists>h. hashPassword (bc L) rnd (PasswordHash u) = Inr h
           \<and> validateClaims (ent L) (Claims u) = None
           \<and> repo_Create (repo s) ctx db
                (u\<lparr>PasswordHash := h, ID := oid, CreatedAt := now, UpdatedAt := now\<rparr>) =
              (Inr (InsertedID res), db')
           \<and> ((\<forall>doc i d. repo_Create (repo s) ctx db doc = (Inr i, d) \<longrightarrow>
                  repo_GetByID (repo s) ctx d i = Inr doc) \<and>
               GenerateFromPassword (bc L) rnd (PasswordHash u) DefaultCost \<noteq>
                 Inr (PasswordHash u) \<longrightarrow>
               (\<exists>got. GetByID s ctx db' (InsertedID res) = Inr got
                  \<and> Name got = Name u \<and> Surnames got = Surnames u
                  \<and> Email got = Email u \<and> Claims got = Claims u
                  \<and> ID got = oid
                  \<and> CreatedAt got = now \<and> UpdatedAt got = now
                  \<and> CreatedAt got = UpdatedAt got
                  \<and> PasswordHash got = h
                  \<and> PasswordHash got \<noteq> PasswordHash u))"
      by blast
  qed
  from hashing validation success show ?thesis by blast
qed

theorem Create_witness:
  "Create mem_libs mem_service Plain db1 3000 (ObjectID bob_id) None newUser =
     (Inl (LibError ''no entropy''), db1)
   \<and> Create mem_libs mem_service Plain db1 3000 (ObjectID bob_id) (Some CHR ''t'')
       (newUser\<lparr>Claims := [1, 4]\<rparr>) =
     (Inl (Errorf ''not valid claim detected: %d'' [4]), db1)
   \<and> Create mem_libs mem_service Plain db1 3000 (ObjectID bob_id) (Some CHR ''t'') newUser =
     (Inr \<lparr>InsertedID = bob_id\<rparr>, db1_bob)
   \<and> (\<exists>got. GetByID mem_service Plain db1_bob bob_id = Inr got
        \<and> Name got = ''Bob'' \<and> Surnames got = ''Builder'' \<and> Email got = ''bob@example.org''
        \<and> Claims got = [1] \<and> ID got = ObjectID bob_id
        \<and> CreatedAt got = 3000 \<and> UpdatedAt got = 3000
        \<and> PasswordHash got \<noteq> ''hunter2'')"
proof -
  note t = Create_validates_then_inserts [where L = mem_libs and s = mem_service
    and ctx = Plain and db = db1 and now = 3000 and oid = "ObjectID bob_id"]
  have a: "Create mem_libs mem_service Plain db1 3000 (ObjectID bob_id) None newUser =
     (Inl (LibError ''no entropy''), db1)"
    by (rule t [THEN conjunct1, rule_format]) (simp add: mem_hash)
  have b: "Create mem_libs mem_service Plain db1 3000 (ObjectID bob_id) (Some CHR ''t'')
       (newUser\<lparr>Claims := [1, 4]\<rparr>) =
     (Inl (Errorf ''not valid claim detected: %d'' [4]), db1)"
    by (rule t [THEN conjunct2, THEN conjunct1, rule_format, of _ _ "CHR ''t'' # ''hunter2''"])
      (simp add: mem_hash newUser_def mem_IsValid)
  have ne: "GenerateFromPassword (bc mem_libs) (Some CHR ''t'') (PasswordHash newUser) DefaultCost
      \<noteq> Inr (PasswordHash newUser)"
    by (simp add: mem_libs_def mem_bcrypt_def)
  from t [THEN conjunct2, THEN conjunct2, rule_format, OF Create_bob]
    mem_Create_then_GetByID [of Plain db1] ne
  have c: "\<exists>got. GetByID mem_service Plain db1_bob bob_id = Inr got
        \<and> Name got = ''Bob'' \<and> Surnames got = ''Builder'' \<and> Email got = ''bob@example.org''
        \<and> Claims got = [1] \<and> ID got = ObjectID bob_id
        \<and> CreatedAt got = 3000 \<and> UpdatedAt got = 3000
        \<and> PasswordHash got \<noteq> ''hunter2''"
    by (auto simp add: newUser_def)
  from a b c Create_bob show ?thesis by blast
qed

subsection \<open>The atomic write of two entities\<close>

text \<open>
  C8. \<open>AtomicTransationProof\<close> performs its two inserts as one unit. The transaction
  engine is external; what is assumed of it is stated in terms of two observers,
  \<open>visible\<close> (the documents a reader sees outside any transaction) and \<open>view\<close> (the
  documents seen through a session context inside its transaction): starting and ending
  a session leave \<open>visible\<close> unchanged; \<open>WithTransaction\<close> on this callback either
  reports an error and leaves \<open>visible\<close> unchanged, or publishes the view that a run of
  the callback started from a snapshot of \<open>visible\<close> and ended with on returning nil;
  a successful insert appends the document to the view. Then after every call either
  the visible documents are unchanged or exactly the two entities were added, in order;
  a nil result means both were added; if the second insert cannot succeed after the
  first, nothing is visible of the first and the call reports an error; and whenever
  the session was started, the last thing done to the store is ending that session.
\<close>

theorem AtomicTransationProof_all_or_nothing:
  fixes visible :: "'db \<Rightarrow> User list" and view :: "'ctx \<Rightarrow> 'db \<Rightarrow> User list"
  assumes start: "\<forall>d x d'. StartSession (client s) d = (x, d') \<longrightarrow> visible d' = visible d"
    and finish: "\<forall>sess c d. visible (EndSession (client s) sess c d) = visible d"
    and txn: "\<forall>sess c h1 h2 opts d r d'.
        WithTransaction (client s) sess c (callback s oid1 oid2 h1 h2) opts d = (r, d') \<longrightarrow>
        (r \<noteq> None \<and> visible d' = visible d) \<or>
        (\<exists>sc d0 d1. view sc d0 = visible d \<and>
           callback s oid1 oid2 h1 h2 sc d0 = (None, d1) \<and> visible d' = view sc d1)"
    and insert: "\<forall>sc d doc i d'. repo_Create (repo s) sc d doc = (Inr i, d') \<longrightarrow>
        view sc d' = view sc d @ [doc]"
    and run: "AtomicTransationProof L s ctx db rnd1 rnd2 oid1 oid2 = (res, db')"
  shows "(visible db' = visible db \<or>
          (\<exists>h1 h2. hashPassword (bc L) rnd1 ''Entity1'' = Inr h1 \<and>
             hashPassword (bc L) rnd2 ''Entity2'' = Inr h2 \<and>
             visible db' =
               visible db @ [demoEntity oid1 ''Entity1'' h1, demoEntity oid2 ''Entity2'' h2]))
     \<and> (res = None \<longrightarrow>
          (\<exists>h1 h2. hashPassword (bc L) rnd1 ''Entity1'' = Inr h1 \<and>
             hashPassword (bc L) rnd2 ''Entity2'' = Inr h2 \<and>
             visible db' =
               visible db @ [demoEntity oid1 ''Entity1'' h1, demoEntity oid2 ''Entity2'' h2]))
     \<and> ((\<forall>sc d0 h1 i d1 h2 j d2.
            view sc d0 = visible db \<and>
            repo_Create (repo s) sc d0 (demoEntity oid1 ''Entity1'' h1) = (Inr i, d1) \<longrightarrow>
            repo_Create (repo s) sc d1 (demoEntity oid2 ''Entity2'' h2) \<noteq> (Inr j, d2)) \<longrightarrow>
          visible db' = visible db \<and> res \<noteq> None)
     \<and> (\<forall>sess d0. StartSession (client s) db = (Inr sess, d0) \<longrightarrow>
          (\<exists>d1. db' = EndSession (client s) sess ctx d1))"
proof -
  let ?both = "\<lambda>h1 h2. visible db @ [demoEntity oid1 ''Entity1'' h1, demoEntity oid2 ''Entity2'' h2]"
  let ?blocked = "\<forall>sc d0 h1 i d1 h2 j d2.
            view sc d0 = visible db \<and>
            repo_Create (repo s) sc d0 (demoEntity oid1 ''Entity1'' h1) = (Inr i, d1) \<longrightarrow>
            repo_Create (repo s) sc d1 (demoEntity oid2 ''Entity2'' h2) \<noteq> (Inr j, d2)"
  from AtomicTransationProof_cases [OF run]
  consider
    (nosession) err where "StartSession (client s) db = (Inl err, db')" "res = Some err"
  | (nohash) sess d0 err where "StartSession (client s) db = (Inr sess, d0)"
      "res = Some err" "db' = EndSession (client s) sess ctx d0"
  | (txn) sess d0 h1 h2 d1 where "StartSession (client s) db = (Inr sess, d0)"
      "hashPassword (bc L) rnd1 ''Entity1'' = Inr h1"
      "hashPassword (bc L) rnd2 ''Entity2'' = Inr h2"
      "WithTransaction (client s) sess (Background (client s)) (callback s oid1 oid2 h1 h2)
         \<lparr>opt_WriteConcern = WMajority, opt_ReadConcern = Snapshot\<rparr> d0 = (res, d1)"
      "db' = EndSession (client s) sess ctx d1"
    by blast
  then show ?thesis
  proof cases
    case nosession
    with start have "visible db' = visible db" by blast
    with nosession show ?thesis by simp
  next
    case nohash
    with start finish have "visible db' = visible db" by simp
    with nohash show ?thesis by auto
  next
    case txn
    from start txn(1) have v0: "visible d0 = visible db" by blast
    from finish txn(5) have v1: "visible db' = visible d1" by simp
    from assms(3) txn(4) have
      alt: "(res \<noteq> None \<and> visible d1 = visible d0) \<or>
        (\<exists>sc da db2. view sc da = visible d0 \<and>
           callback s oid1 oid2 h1 h2 sc da = (None, db2) \<and> visible d1 = view sc db2)"
      by blast
    have both_in: "visible d1 = ?both h1 h2 \<and> \<not> ?blocked"
      if c: "view sc da = visible d0" "callback s oid1 oid2 h1 h2 sc da = (None, db2)"
        "visible d1 = view sc db2" for sc da db2
    proof -
      from callback_None [OF c(2)] obtain i dm j where
        i1: "repo_Create (repo s) sc da (demoEntity oid1 ''Entity1'' h1) = (Inr i, dm)" and
        i2: "repo_Create (repo s) sc dm (demoEntity oid2 ''Entity2'' h2) = (Inr j, db2)"
        by blast
      from insert i1 have "view sc dm = view sc da @ [demoEntity oid1 ''Entity1'' h1]" by blast
      moreover from insert i2 have "view sc db2 = view sc dm @ [demoEntity oid2 ''Entity2'' h2]"
        by blast
      ultimately have "visible d1 = ?both h1 h2" using c(1,3) v0 by simp
      moreover from c(1) v0 i1 i2 have "\<not> ?blocked" by metis
      ultimately show ?thesis by blast
    qed
    from alt both_in have
      p1: "visible d1 = visible db \<or> visible d1 = ?both h1 h2" and
      p2: "res = None \<longrightarrow> visible d1 = ?both h1 h2" and
      p3: "?blocked \<longrightarrow> visible d1 = visible db \<and> res \<noteq> None"
      using v0 by metis+
    from p1 p2 p3 v1 txn(1,2,3,5) show ?thesis by auto
  qed
qed

theorem AtomicTransationProof_witness:
  "AtomicTransationProof mem_libs mem_service Plain db1 (Some CHR ''a'') (Some CHR ''b'')
      (ObjectID e1_id) (ObjectID e2_id) = (None, db1_entities)
   \<and> committed db1_entities =
       committed db1 @ [demoEntity (ObjectID e1_id) ''Entity1'' (CHR ''a'' # ''Entity1''),
                        demoEntity (ObjectID e2_id) ''Entity2'' (CHR ''b'' # ''Entity2'')]
   \<and> (\<exists>d1. db1_entities = EndSession (client mem_service) 0 Plain d1)
   \<and> AtomicTransationProof mem_libs mem_service Plain db1 (Some CHR ''a'') (Some CHR ''b'')
      (ObjectID e1_id) (ObjectID alice_id) = (Some mem_duplicate_key, db1)
   \<and> (\<exists>d1. db1 = EndSession (client mem_service) 0 Plain d1)"
proof -
  have s0: "StartSession (client mem_service) db1 = (Inr 0, db1\<lparr>sessions := Suc 0\<rparr>)"
    by (simp add: mem_service_def mem_client_def mem_StartSession_def db1_def)
  note both = AtomicTransationProof_all_or_nothing
    [OF mem_start mem_finish mem_txn mem_insert Atomic_run_both]
  note dup = AtomicTransationProof_all_or_nothing
    [OF mem_start mem_finish mem_txn mem_insert Atomic_run_duplicate]
  from both [THEN conjunct2, THEN conjunct1] have
    a: "committed db1_entities =
       committed db1 @ [demoEntity (ObjectID e1_id) ''Entity1'' (CHR ''a'' # ''Entity1''),
                        demoEntity (ObjectID e2_id) ''Entity2'' (CHR ''b'' # ''Entity2'')]"
    by (simp add: mem_hash)
  from both [THEN conjunct2, THEN conjunct2, THEN conjunct2, rule_format, OF s0] have
    b: "\<exists>d1. db1_entities = EndSession (client mem_service) 0 Plain d1" .
  from dup [THEN conjunct2, THEN conjunct2, THEN conjunct1, rule_format,
      OF mem_second_insert_blocked [rule_format]]
  have c: "committed db1 = committed db1 \<and> Some mem_duplicate_key \<noteq> None" .
  from dup [THEN conjunct2, THEN conjunct2, THEN conjunct2, rule_format, OF s0] have
    d: "\<exists>d1. db1 = EndSession (client mem_service) 0 Plain d1" .
  from a b c d Atomic_run_both Atomic_run_duplicate show ?thesis by blast
qed

subsection \<open>Hashing and verifying a password\<close>




end
